theory Spec2Isabelle
  imports Complex_Main
begin

section \<open>JavaScript values\<close>

text \<open>
  A JavaScript number is modelled as an exact rational, one of the two infinities, or
  \<open>NaN\<close>. Rounding of IEEE-754 doubles, overflow of a finite result and the sign of zero
  are not modelled. The infinities and \<open>NaN\<close> are kept because \<open>Number(...)\<close> and
  \<open>JSON.parse\<close> produce them and the code tests for them.
\<close>

datatype jsnum = Num rat | PosInf | NegInf | NaN

fun jneg :: "jsnum \<Rightarrow> jsnum" where
  "jneg (Num a) = Num (- a)"
| "jneg PosInf = NegInf"
| "jneg NegInf = PosInf"
| "jneg NaN = NaN"

fun jadd :: "jsnum \<Rightarrow> jsnum \<Rightarrow> jsnum" where
  "jadd (Num a) (Num b) = Num (a + b)"
| "jadd (Num a) PosInf = PosInf"
| "jadd (Num a) NegInf = NegInf"
| "jadd PosInf (Num b) = PosInf"
| "jadd NegInf (Num b) = NegInf"
| "jadd PosInf PosInf = PosInf"
| "jadd NegInf NegInf = NegInf"
| "jadd _ _ = NaN"

text \<open>The infinity with the sign of a rational; \<open>NaN\<close> for 0.\<close>

definition infOf :: "rat \<Rightarrow> jsnum" where
  "infOf a = (if a = 0 then NaN else if 0 < a then PosInf else NegInf)"

fun jmul :: "jsnum \<Rightarrow> jsnum \<Rightarrow> jsnum" where
  "jmul (Num a) (Num b) = Num (a * b)"
| "jmul (Num a) PosInf = infOf a"
| "jmul (Num a) NegInf = infOf (- a)"
| "jmul PosInf (Num b) = infOf b"
| "jmul NegInf (Num b) = infOf (- b)"
| "jmul PosInf PosInf = PosInf"
| "jmul NegInf NegInf = PosInf"
| "jmul PosInf NegInf = NegInf"
| "jmul NegInf PosInf = NegInf"
| "jmul _ _ = NaN"

text \<open>
  Every division of the source has a divisor that a \<open>> 0\<close> test has just accepted, or the
  literal 100, so it never divides by zero; there the model takes the zero as positive.
  A finite number divided by an infinity is 0.
\<close>

fun jdiv :: "jsnum \<Rightarrow> jsnum \<Rightarrow> jsnum" where
  "jdiv (Num a) (Num b) = (if b = 0 then infOf a else Num (a / b))"
| "jdiv (Num a) PosInf = Num 0"
| "jdiv (Num a) NegInf = Num 0"
| "jdiv PosInf (Num b) = (if 0 \<le> b then PosInf else NegInf)"
| "jdiv NegInf (Num b) = (if 0 \<le> b then NegInf else PosInf)"
| "jdiv _ _ = NaN"

text \<open>Comparisons: any comparison with \<open>NaN\<close> is false.\<close>

fun jlt :: "jsnum \<Rightarrow> jsnum \<Rightarrow> bool" where
  "jlt (Num a) (Num b) = (a < b)"
| "jlt (Num a) PosInf = True"
| "jlt NegInf (Num b) = True"
| "jlt NegInf PosInf = True"
| "jlt _ _ = False"

fun jle :: "jsnum \<Rightarrow> jsnum \<Rightarrow> bool" where
  "jle (Num a) (Num b) = (a \<le> b)"
| "jle (Num a) PosInf = True"
| "jle NegInf (Num b) = True"
| "jle NegInf PosInf = True"
| "jle PosInf PosInf = True"
| "jle NegInf NegInf = True"
| "jle _ _ = False"

definition jgt :: "jsnum \<Rightarrow> jsnum \<Rightarrow> bool" where
  "jgt a b = jlt b a"

definition jge :: "jsnum \<Rightarrow> jsnum \<Rightarrow> bool" where
  "jge a b = jle b a"

text \<open>\<open>!n\<close> for a number: true for 0 and \<open>NaN\<close>.\<close>

fun falsy_num :: "jsnum \<Rightarrow> bool" where
  "falsy_num (Num a) = (a = 0)"
| "falsy_num NaN = True"
| "falsy_num _ = False"

text \<open>\<open>Number.isNaN\<close> and \<open>Number.isFinite\<close>.\<close>

fun isNaN :: "jsnum \<Rightarrow> bool" where
  "isNaN NaN = True"
| "isNaN _ = False"

fun isFinite :: "jsnum \<Rightarrow> bool" where
  "isFinite (Num a) = True"
| "isFinite _ = False"

text \<open>
  A \<open>Date\<close> object holds a time in milliseconds, or is an Invalid Date. Two dates are
  compared through their time values, and an Invalid Date (time value \<open>NaN\<close>) compares
  false with everything.
\<close>

datatype jsdate = DateMs int | InvalidDate

fun date_lt :: "jsdate \<Rightarrow> jsdate \<Rightarrow> bool" where
  "date_lt (DateMs a) (DateMs b) = (a < b)"
| "date_lt _ _ = False"

fun date_le :: "jsdate \<Rightarrow> jsdate \<Rightarrow> bool" where
  "date_le (DateMs a) (DateMs b) = (a \<le> b)"
| "date_le _ _ = False"

definition date_ge :: "jsdate \<Rightarrow> jsdate \<Rightarrow> bool" where
  "date_ge a b = date_le b a"

text \<open>
  The values the scripts handle: what \<open>JSON.parse\<close> returns, what a missing property
  reads as (\<open>JUndefined\<close>), and the arguments of \<open>adicionarOperacao\<close>. An object is the
  list of its own properties in order, each key once. One \<open>char\<close> stands for one UTF-16
  code unit of a string.
\<close>

datatype jsval =
    JUndefined
  | JNull
  | JBool bool
  | JNumber jsnum
  | JString string
  | JArray "jsval list"
  | JObject "(string \<times> jsval) list"

fun truthy :: "jsval \<Rightarrow> bool" where
  "truthy JUndefined = False"
| "truthy JNull = False"
| "truthy (JBool b) = b"
| "truthy (JNumber n) = (\<not> falsy_num n)"
| "truthy (JString s) = (s \<noteq> [])"
| "truthy (JArray _) = True"
| "truthy (JObject _) = True"

text \<open>
  What the scripts take from the browser: the built-ins whose result depends on text
  syntax, on the Unicode tables, on the locale or on the time zone. They are parameters
  of the model.
  \<^item> \<open>JSON_parse\<close>: \<open>JSON.parse\<close>; \<open>None\<close> is a thrown SyntaxError.
  \<^item> \<open>StringToNumber\<close>: \<open>Number(s)\<close> for a string.
  \<^item> \<open>NumberToString\<close>: \<open>String(n)\<close> for a number.
  \<^item> \<open>Date_new\<close>: \<open>new Date(v)\<close> for a value that is not an object.
  \<^item> \<open>firstOfMonth\<close>: for the time \<open>t\<close> of a date \<open>now\<close>, the time of
    \<open>new Date(now.getFullYear(), now.getMonth(), 1, 0, 0, 0, 0)\<close> in local time.
  \<^item> \<open>String_trim\<close>: \<open>String.prototype.trim\<close>.
\<close>

record host =
  JSON_parse :: "string \<Rightarrow> jsval option"
  StringToNumber :: "string \<Rightarrow> jsnum"
  NumberToString :: "jsnum \<Rightarrow> string"
  Date_new :: "jsval \<Rightarrow> jsdate"
  firstOfMonth :: "int \<Rightarrow> int"
  String_trim :: "string \<Rightarrow> string"

datatype exn = SyntaxError | TypeError

text \<open>
  The string a value converts to; \<open>None\<close> is a thrown TypeError. The objects and arrays
  are those \<open>JSON.parse\<close> builds: their own properties are never functions. So an object
  converts through \<open>Object.prototype.toString\<close> to \<open>[object Object]\<close>, unless it has an
  own property \<open>toString\<close>, which hides that method and is not callable: then neither
  \<open>toString\<close> nor \<open>valueOf\<close> gives a primitive value and the conversion throws. An array
  converts through \<open>join\<close>: the strings of its elements separated by commas, with the
  empty string for \<open>null\<close> and \<open>undefined\<close>.
\<close>

fun ToStringJS :: "host \<Rightarrow> jsval \<Rightarrow> string option"
  and joinJS :: "host \<Rightarrow> jsval list \<Rightarrow> string option" where
  "ToStringJS h JUndefined = Some ''undefined''"
| "ToStringJS h JNull = Some ''null''"
| "ToStringJS h (JBool b) = Some (if b then ''true'' else ''false'')"
| "ToStringJS h (JNumber n) = Some (NumberToString h n)"
| "ToStringJS h (JString s) = Some s"
| "ToStringJS h (JArray xs) = joinJS h xs"
| "ToStringJS h (JObject fs) =
     (if map_of fs ''toString'' = None then Some ''[object Object]'' else None)"
| "joinJS h [] = Some []"
| "joinJS h (x # xs) =
     (case (if x = JUndefined \<or> x = JNull then Some [] else ToStringJS h x) of
        None \<Rightarrow> None
      | Some s \<Rightarrow>
          (if xs = [] then Some s
           else (case joinJS h xs of None \<Rightarrow> None | Some r \<Rightarrow> Some (s @ '','' @ r))))"

text \<open>
  \<open>Number(v)\<close>. An object or an array is first converted to a string, which can throw.
\<close>

fun Number_of :: "host \<Rightarrow> jsval \<Rightarrow> exn + jsnum" where
  "Number_of h JUndefined = Inr NaN"
| "Number_of h JNull = Inr (Num 0)"
| "Number_of h (JBool b) = Inr (if b then Num 1 else Num 0)"
| "Number_of h (JNumber n) = Inr n"
| "Number_of h (JString s) = Inr (StringToNumber h s)"
| "Number_of h v =
     (case ToStringJS h v of None \<Rightarrow> Inl TypeError | Some s \<Rightarrow> Inr (StringToNumber h s))"

text \<open>
  \<open>new Date(v)\<close>. An object or an array is first converted to a string, which can throw,
  and the string is then read as a date.
\<close>

fun newDate :: "host \<Rightarrow> jsval \<Rightarrow> exn + jsdate" where
  "newDate h (JArray xs) =
     (case ToStringJS h (JArray xs) of
        None \<Rightarrow> Inl TypeError
      | Some s \<Rightarrow> Inr (Date_new h (JString s)))"
| "newDate h (JObject fs) =
     (case ToStringJS h (JObject fs) of
        None \<Rightarrow> Inl TypeError
      | Some s \<Rightarrow> Inr (Date_new h (JString s)))"
| "newDate h v = Inr (Date_new h v)"

text \<open>
  The wall clock: \<open>clk k\<close> is what the \<open>k\<close>-th evaluation of \<open>new Date()\<close> within one call
  returns, in milliseconds. A function that reads the clock takes the index of its next
  reading and returns the index after its last one.
\<close>

type_synonym clock = "nat \<Rightarrow> int"

section \<open>The state of the main script\<close>

text \<open>
  An operation as the main script stores it. \<open>createdAt\<close>, \<open>amount\<close> and \<open>result\<close> are the
  three properties the script reads and always writes; \<open>rest\<close> holds every other
  property (\<open>id\<close>, \<open>strategy\<close>, \<open>description\<close>, and whatever else a stored record carried
  through the object spread, a \<open>payoutPercent\<close> for instance).
\<close>

record operacao =
  createdAt :: jsdate
  amount :: jsnum
  result :: string
  rest :: "(string \<times> jsval) list"

record state =
  bancaInicial :: jsnum
  operacoes :: "operacao list"

definition state0 :: state where
  "state0 = \<lparr>bancaInicial = Num 5000, operacoes = []\<rparr>"

section \<open>calcularKPIs\<close>

text \<open>The summand of the three \<open>reduce\<close> calls: \<open>o.result === 'WIN' ? o.amount : -o.amount\<close>.\<close>

definition profit :: "operacao \<Rightarrow> jsnum" where
  "profit p = (if result p = ''WIN'' then amount p else jneg (amount p))"

definition somaProfit :: "operacao list \<Rightarrow> jsnum" where
  "somaProfit ops = foldl (\<lambda>acc p. jadd acc (profit p)) (Num 0) ops"

text \<open>\<open>inicioDoMesAtual\<close>: one reading of the clock.\<close>

definition inicioDoMesAtual :: "host \<Rightarrow> clock \<Rightarrow> nat \<Rightarrow> jsdate \<times> nat" where
  "inicioDoMesAtual h clk k = (DateMs (firstOfMonth h (clk k)), Suc k)"

text \<open>
  \<open>ops.filter(o => o.createdAt >= startMonth && o.createdAt <= new Date())\<close>: the clock is
  read once for each operation that passes the first test.
\<close>

fun filtraMes :: "jsdate \<Rightarrow> clock \<Rightarrow> nat \<Rightarrow> operacao list \<Rightarrow> operacao list \<times> nat" where
  "filtraMes startMonth clk k [] = ([], k)"
| "filtraMes startMonth clk k (p # ps) =
     (if date_ge (createdAt p) startMonth then
        (let keep = date_le (createdAt p) (DateMs (clk k));
             (r, k') = filtraMes startMonth clk (Suc k) ps
         in (if keep then p # r else r, k'))
      else filtraMes startMonth clk k ps)"

text \<open>
  The loop of the current streak: \<open>for (let i = ops.length - 1; i >= 0; i--)\<close>. The first
  argument after the list is \<open>i + 1\<close>; \<open>streakTipo\<close> is \<open>None\<close> for \<open>null\<close>. An empty string
  is falsy, so \<open>ops[i]?.result || null\<close> is \<open>null\<close> for it.
\<close>

fun streakLoop :: "operacao list \<Rightarrow> nat \<Rightarrow> nat \<times> string option \<Rightarrow> nat \<times> string option" where
  "streakLoop ops 0 acc = acc"
| "streakLoop ops (Suc i) (streakAtual, streakTipo) =
     (if i = length ops - 1 then
        (let tipo = (if result (ops ! i) = [] then None else Some (result (ops ! i)))
         in streakLoop ops i (if tipo = None then 0 else 1, tipo))
      else if Some (result (ops ! i)) = streakTipo then
        streakLoop ops i (streakAtual + 1, streakTipo)
      else (streakAtual, streakTipo))"

text \<open>The loop of the longest run of WIN; the pair is \<open>(streakMax, atual)\<close>.\<close>

fun streakMaxLoop :: "operacao list \<Rightarrow> nat \<times> nat \<Rightarrow> nat \<times> nat" where
  "streakMaxLoop [] acc = acc"
| "streakMaxLoop (p # ps) (streakMax, atual) =
     (if result p = ''WIN'' then streakMaxLoop ps (max streakMax (atual + 1), atual + 1)
      else streakMaxLoop ps (streakMax, 0))"

record kpis =
  bancaAtual :: jsnum
  baselineMes :: jsnum
  variacaoValor :: jsnum
  variacaoPct :: jsnum
  winsMes :: nat
  lossesMes :: nat
  taxaAcerto :: jsnum
  lucroMes :: jsnum
  mediaMes :: jsnum
  streakAtual :: nat
  streakTipo :: "string option"
  streakMax :: nat
  ultima :: "operacao option"

definition startMonthOf :: "host \<Rightarrow> clock \<Rightarrow> jsdate" where
  "startMonthOf h clk = fst (inicioDoMesAtual h clk 0)"

definition opsMesOf :: "host \<Rightarrow> clock \<Rightarrow> state \<Rightarrow> operacao list" where
  "opsMesOf h clk s =
     fst (filtraMes (startMonthOf h clk) clk (snd (inicioDoMesAtual h clk 0)) (operacoes s))"

definition profitAntesMesOf :: "host \<Rightarrow> clock \<Rightarrow> state \<Rightarrow> jsnum" where
  "profitAntesMesOf h clk s =
     somaProfit (filter (\<lambda>p. date_lt (createdAt p) (startMonthOf h clk)) (operacoes s))"

definition taxaDe :: "nat \<Rightarrow> nat \<Rightarrow> jsnum" where
  "taxaDe w l =
     (if w + l > 0 then jmul (jdiv (Num (of_nat w)) (Num (of_nat (w + l)))) (Num 100)
      else Num 0)"

definition pctDe :: "jsnum \<Rightarrow> jsnum \<Rightarrow> jsnum" where
  "pctDe valor baseline =
     (if jgt baseline (Num 0) then jmul (jdiv valor baseline) (Num 100) else Num 0)"

definition mediaDe :: "operacao list \<Rightarrow> jsnum" where
  "mediaDe ops =
     (if length ops > 0
      then jdiv (foldl (\<lambda>acc p. jadd acc (amount p)) (Num 0) ops) (Num (of_nat (length ops)))
      else Num 0)"

definition calcularKPIs :: "host \<Rightarrow> clock \<Rightarrow> state \<Rightarrow> kpis" where
  "calcularKPIs h clk s =
     (let ops = operacoes s;
          profitAll = somaProfit ops;
          banca = jadd (bancaInicial s) profitAll;
          baseline = jadd (bancaInicial s) (profitAntesMesOf h clk s);
          opsMes = opsMesOf h clk s;
          wins = length (filter (\<lambda>p. result p = ''WIN'') opsMes);
          losses = length (filter (\<lambda>p. result p = ''LOSS'') opsMes);
          lucro = somaProfit opsMes;
          streak = streakLoop ops (length ops) (0, None);
          smax = fst (streakMaxLoop ops (0, 0))
      in \<lparr>bancaAtual = banca,
          baselineMes = baseline,
          variacaoValor = lucro,
          variacaoPct = pctDe lucro baseline,
          winsMes = wins,
          lossesMes = losses,
          taxaAcerto = taxaDe wins losses,
          lucroMes = lucro,
          mediaMes = mediaDe opsMes,
          streakAtual = fst streak,
          streakTipo = snd streak,
          streakMax = smax,
          ultima = (if ops = [] then None else Some (last ops))\<rparr>)"

section \<open>carregarLocal\<close>

text \<open>
  Reading a property \<open>v.key\<close>, for the keys the script reads (\<open>bancaInicial\<close>,
  \<open>operacoes\<close>, \<open>createdAt\<close>, \<open>amount\<close>, \<open>result\<close>: none of them is a built-in property of
  a string, an array, a number or a boolean). On \<open>null\<close> and \<open>undefined\<close> it throws.
\<close>

fun getProp :: "jsval \<Rightarrow> string \<Rightarrow> exn + jsval" where
  "getProp JUndefined key = Inl TypeError"
| "getProp JNull key = Inl TypeError"
| "getProp (JObject fs) key = (case map_of fs key of None \<Rightarrow> Inr JUndefined | Some v \<Rightarrow> Inr v)"
| "getProp _ key = Inr JUndefined"

text \<open>The decimal numeral of an index, as the key of a property.\<close>

function decimal :: "nat \<Rightarrow> string" where
  "decimal n =
     (if n < 10 then [''0123456789'' ! n]
      else decimal (n div 10) @ [''0123456789'' ! (n mod 10)])"
  by pat_completeness auto
termination
  by (relation "measure id") auto

declare decimal.simps [simp del]

text \<open>
  The own enumerable properties the object spread \<open>...o\<close> copies: those of an object, the
  indices of an array, the indices of a string; nothing for the other values.
\<close>

fun spread :: "jsval \<Rightarrow> (string \<times> jsval) list" where
  "spread (JObject fs) = fs"
| "spread (JArray xs) = zip (map decimal [0..<length xs]) xs"
| "spread (JString s) = zip (map decimal [0..<length s]) (map (\<lambda>c. JString [c]) s)"
| "spread _ = []"

definition normResult :: "jsval \<Rightarrow> string" where
  "normResult r = (if r = JString ''WIN'' then ''WIN'' else ''LOSS'')"

text \<open>
  The arrow function of \<open>parsed.operacoes.map\<close>. The three named properties override
  what the spread copied under the same keys. The clock is read when \<open>o.createdAt\<close> is
  falsy.
\<close>

definition carregaOp :: "host \<Rightarrow> clock \<Rightarrow> nat \<Rightarrow> jsval \<Rightarrow> exn + (operacao \<times> nat)" where
  "carregaOp h clk k v =
     (case getProp v ''createdAt'' of
        Inl e \<Rightarrow> Inl e
      | Inr c \<Rightarrow>
          (case (if truthy c
                 then (case newDate h c of Inl e \<Rightarrow> Inl e | Inr d \<Rightarrow> Inr (d, k))
                 else Inr (DateMs (clk k), Suc k)) of
             Inl e \<Rightarrow> Inl e
           | Inr (d, k') \<Rightarrow>
               (case getProp v ''amount'' of
                  Inl e \<Rightarrow> Inl e
                | Inr a \<Rightarrow>
                    (case Number_of h a of
                       Inl e \<Rightarrow> Inl e
                     | Inr n \<Rightarrow>
                         (case getProp v ''result'' of
                            Inl e \<Rightarrow> Inl e
                          | Inr r \<Rightarrow>
                              Inr (\<lparr>createdAt = d,
                                    amount = n,
                                    result = normResult r,
                                    rest = filter (\<lambda>kv. fst kv \<noteq> ''createdAt''
                                                     \<and> fst kv \<noteq> ''amount''
                                                     \<and> fst kv \<noteq> ''result'') (spread v)\<rparr>,
                                   k'))))))"

fun carregaOps :: "host \<Rightarrow> clock \<Rightarrow> nat \<Rightarrow> jsval list \<Rightarrow> exn + (operacao list \<times> nat)" where
  "carregaOps h clk k [] = Inr ([], k)"
| "carregaOps h clk k (v # vs) =
     (case carregaOp h clk k v of
        Inl e \<Rightarrow> Inl e
      | Inr (p, k') \<Rightarrow>
          (case carregaOps h clk k' vs of
             Inl e \<Rightarrow> Inl e
           | Inr (ps, k'') \<Rightarrow> Inr (p # ps, k'')))"

text \<open>\<open>Number(x) || 0\<close>.\<close>

definition numberOrZero :: "host \<Rightarrow> jsval \<Rightarrow> exn + jsnum" where
  "numberOrZero h v =
     (case Number_of h v of
        Inl e \<Rightarrow> Inl e
      | Inr n \<Rightarrow> Inr (if falsy_num n then Num 0 else n))"

text \<open>
  The body of the \<open>try\<close>: the exception it throws, if any, and the state as the
  assignments made before it left it.
\<close>

definition corpoCarregar :: "host \<Rightarrow> clock \<Rightarrow> string \<Rightarrow> state \<Rightarrow> exn option \<times> state" where
  "corpoCarregar h clk raw s =
     (case JSON_parse h raw of
        None \<Rightarrow> (Some SyntaxError, s)
      | Some parsed \<Rightarrow>
          (case getProp parsed ''bancaInicial'' of
             Inl e \<Rightarrow> (Some e, s)
           | Inr b \<Rightarrow>
               (case numberOrZero h b of
                  Inl e \<Rightarrow> (Some e, s)
                | Inr n \<Rightarrow>
                    (let s1 = s\<lparr>bancaInicial := n\<rparr>
                     in case getProp parsed ''operacoes'' of
                          Inl e \<Rightarrow> (Some e, s1)
                        | Inr (JArray vs) \<Rightarrow>
                            (case carregaOps h clk 0 vs of
                               Inl e \<Rightarrow> (Some e, s1)
                             | Inr (ps, k) \<Rightarrow> (None, s1\<lparr>operacoes := ps\<rparr>))
                        | Inr _ \<Rightarrow> (None, s1\<lparr>operacoes := []\<rparr>)))))"

text \<open>
  The call \<open>carregarLocal()\<close>: the exception that leaves it, if any, and the state after
  it. \<open>raw\<close> is what \<open>localStorage.getItem('daytrade_state')\<close> returned (\<open>None\<close> for
  \<open>null\<close>). The \<open>catch\<close> has an empty body: whatever the \<open>try\<close> throws, the function
  goes on and returns, with the state as the \<open>try\<close> left it.
\<close>

definition chamaCarregarLocal ::
  "host \<Rightarrow> clock \<Rightarrow> string option \<Rightarrow> state \<Rightarrow> exn option \<times> state" where
  "chamaCarregarLocal h clk raw s =
     (case raw of
        None \<Rightarrow> (None, s)
      | Some r \<Rightarrow>
          if r = [] then (None, s)
          else (case corpoCarregar h clk r s of
                  (None, s') \<Rightarrow> (None, s')
                | (Some e, s') \<Rightarrow> (None, s')))"

text \<open>\<open>carregarLocal\<close>, as the change it makes to \<open>state\<close>.\<close>

definition carregarLocal :: "host \<Rightarrow> clock \<Rightarrow> string option \<Rightarrow> state \<Rightarrow> state" where
  "carregarLocal h clk raw s = snd (chamaCarregarLocal h clk raw s)"

text \<open>What \<open>v.key\<close> evaluates to when the read does not throw, and \<open>Array.isArray\<close>.\<close>

definition campo :: "jsval \<Rightarrow> string \<Rightarrow> jsval" where
  "campo v key = (case getProp v key of Inl e \<Rightarrow> JUndefined | Inr x \<Rightarrow> x)"

fun isArray :: "jsval \<Rightarrow> bool" where
  "isArray (JArray vs) = True"
| "isArray _ = False"

section \<open>adicionarOperacao and the submit handler of the main script\<close>

text \<open>\<open>x || ''\<close>.\<close>

definition orEmpty :: "jsval \<Rightarrow> jsval" where
  "orEmpty v = (if truthy v then v else JString [])"

text \<open>
  The object literal of \<open>adicionarOperacao\<close>: \<open>uid\<close> is the identifier the browser
  supplies, \<open>now\<close> the reading of the clock. \<open>Number(amount)\<close> can throw, and then no
  operation is built.
\<close>

definition novaOperacao ::
  "host \<Rightarrow> string \<Rightarrow> int \<Rightarrow> jsval \<Rightarrow> jsval \<Rightarrow> jsval \<Rightarrow> jsval \<Rightarrow> exn + operacao" where
  "novaOperacao h uid now amt res strategy description =
     (case Number_of h amt of
        Inl e \<Rightarrow> Inl e
      | Inr n \<Rightarrow>
          Inr \<lparr>createdAt = DateMs now,
               amount = n,
               result = normResult res,
               rest = [(''id'', JString uid),
                       (''strategy'', orEmpty strategy),
                       (''description'', orEmpty description)]\<rparr>)"

text \<open>
  \<open>adicionarOperacao\<close>, as the change it makes to \<open>state\<close>: none when building the
  operation throws, the push otherwise. \<open>salvarLocal()\<close> and \<open>render()\<close>, which it calls
  after the push, read \<open>state\<close> and write local storage and the page only.
\<close>

definition adicionarOperacao ::
  "host \<Rightarrow> string \<Rightarrow> int \<Rightarrow> jsval \<Rightarrow> jsval \<Rightarrow> jsval \<Rightarrow> jsval \<Rightarrow> state \<Rightarrow> state" where
  "adicionarOperacao h uid now amt res strategy description s =
     (case novaOperacao h uid now amt res strategy description of
        Inl e \<Rightarrow> s
      | Inr op \<Rightarrow> s\<lparr>operacoes := operacoes s @ [op]\<rparr>)"

text \<open>
  The messages the handlers write into the element \<open>formMsg\<close>:
  \<^item> \<open>ValorInvalido\<close>: 'Informe um valor valido.' (main script)
  \<^item> \<open>ValorInvalidoMaiorZero\<close>: 'Informe um valor valido (> 0).' (sozinho.js)
  \<^item> \<open>PayoutInvalido\<close>: 'Payout deve ser entre 0 e 100.'
  \<^item> \<open>ResultadoInvalido\<close>: 'Selecione WIN ou LOSS.'
  \<^item> \<open>OperacionalAusente\<close>: 'Selecione o operacional.'
  The element is \<open>NoElement\<close> when the page has none (\<open>msg\<close> is \<open>null\<close>), and otherwise
  holds a message or the empty text.
\<close>

datatype mensagem =
  ValorInvalido | ValorInvalidoMaiorZero | PayoutInvalido | ResultadoInvalido | OperacionalAusente

datatype msgEl = NoElement | Text "mensagem option"

text \<open>\<open>if (msg) msg.textContent = t\<close>.\<close>

fun setMsg :: "mensagem option \<Rightarrow> msgEl \<Rightarrow> msgEl" where
  "setMsg t NoElement = NoElement"
| "setMsg t (Text _) = Text t"

text \<open>The \<open>value\<close> of each input of the form, as the handlers read them.\<close>

record form =
  inAmount :: string
  inPayout :: string
  inResult :: string
  inStrategy :: string
  inOperacional :: string
  inDescription :: string

text \<open>\<open>!amount || amount <= 0\<close>.\<close>

definition amountInvalid :: "jsnum \<Rightarrow> bool" where
  "amountInvalid a = (falsy_num a \<or> jle a (Num 0))"

definition resultInvalid :: "string \<Rightarrow> bool" where
  "resultInvalid r = (r \<noteq> ''WIN'' \<and> r \<noteq> ''LOSS'')"

text \<open>The submit handler of the main script, on the message element and the state.\<close>

definition submitMain :: "host \<Rightarrow> string \<Rightarrow> int \<Rightarrow> form \<Rightarrow> msgEl \<times> state \<Rightarrow> msgEl \<times> state" where
  "submitMain h uid now f ms =
     (let msg = setMsg None (fst ms);
          s = snd ms;
          amt = StringToNumber h (inAmount f);
          res = inResult f;
          strategy = String_trim h (inStrategy f);
          description = String_trim h (inDescription f)
      in if amountInvalid amt then (setMsg (Some ValorInvalido) msg, s)
         else if resultInvalid res then (setMsg (Some ResultadoInvalido) msg, s)
         else (msg, adicionarOperacao h uid now (JNumber amt) (JString res)
                      (JString strategy) (JString description) s))"

section \<open>sozinho.js\<close>

text \<open>
  The state of \<open>sozinho.js\<close>: the variable \<open>bancaAtual\<close> and the entry \<open>'bancaAtual'\<close> of
  local storage.
\<close>

record sozinho =
  banca :: jsnum
  guardado :: "string option"

text \<open>
  The initialiser of \<open>bancaAtual\<close>: \<open>raw\<close> is a string or \<open>null\<close>, and \<open>Number(null)\<close>
  is 0.
\<close>

definition bancaInicialSozinho :: "host \<Rightarrow> string option \<Rightarrow> jsnum" where
  "bancaInicialSozinho h raw =
     (let n = (case raw of None \<Rightarrow> Num 0 | Some r \<Rightarrow> StringToNumber h r)
      in if isFinite n then n else Num 100)"

definition payoutInvalid :: "jsnum \<Rightarrow> bool" where
  "payoutInvalid p = (isNaN p \<or> jlt p (Num 0) \<or> jgt p (Num 100))"

definition deltaSozinho :: "jsnum \<Rightarrow> jsnum \<Rightarrow> string \<Rightarrow> jsnum" where
  "deltaSozinho amt payoutPercent res =
     (let payout = jdiv payoutPercent (Num 100)
      in if res = ''WIN'' then jmul amt payout else jneg amt)"

definition submitSozinho :: "host \<Rightarrow> form \<Rightarrow> msgEl \<times> sozinho \<Rightarrow> msgEl \<times> sozinho" where
  "submitSozinho h f mw =
     (let msg = setMsg None (fst mw);
          w = snd mw;
          amt = StringToNumber h (inAmount f);
          payoutPercent = StringToNumber h (inPayout f);
          res = inResult f;
          operacional = inOperacional f
      in if amountInvalid amt then (setMsg (Some ValorInvalidoMaiorZero) msg, w)
         else if payoutInvalid payoutPercent then (setMsg (Some PayoutInvalido) msg, w)
         else if resultInvalid res then (setMsg (Some ResultadoInvalido) msg, w)
         else if operacional = [] then (setMsg (Some OperacionalAusente) msg, w)
         else (let b = jadd (banca w) (deltaSozinho amt payoutPercent res)
               in (msg, \<lparr>banca = b, guardado = Some (NumberToString h b)\<rparr>)))"

section \<open>Reachable states of the main script\<close>

text \<open>
  The script starts from the literal \<open>state\<close>, and only \<open>carregarLocal\<close> and
  \<open>adicionarOperacao\<close> assign to it. A run is the list of their calls, each with what the
  browser gave it; the states the script reaches are the states \<open>corre evs\<close>.
\<close>

datatype evento =
    Carrega host clock "string option"
  | Adiciona host string int jsval jsval jsval jsval

fun executa :: "state \<Rightarrow> evento \<Rightarrow> state" where
  "executa s (Carrega h clk raw) = carregarLocal h clk raw s"
| "executa s (Adiciona h uid now amt res strategy description) =
     adicionarOperacao h uid now amt res strategy description s"

definition corre :: "evento list \<Rightarrow> state" where
  "corre evs = foldl executa state0 evs"

definition winLoss :: "operacao \<Rightarrow> bool" where
  "winLoss p = (result p = ''WIN'' \<or> result p = ''LOSS'')"

section \<open>The calculation in the words of the specification\<close>

text \<open>
  Follows the specification, not the code: \<open>profit(op) = op.result == WIN ? op.amount *
  payoutRatio(op) : -op.amount\<close> with \<open>payoutRatio(op) = (op.payoutPercent ?? 100) / 100\<close>,
  and \<open>currentBalance = initialBalance + sum(profit(op))\<close>. The specification types
  \<open>payoutPercent\<close> as an optional number; in the state of the script such a property is
  among \<open>rest\<close>.
\<close>

definition payoutPercentOf :: "operacao \<Rightarrow> jsnum" where
  "payoutPercentOf p =
     (case map_of (rest p) ''payoutPercent'' of Some (JNumber n) \<Rightarrow> n | _ \<Rightarrow> Num 100)"

definition profit_spec :: "operacao \<Rightarrow> jsnum" where
  "profit_spec p =
     (if result p = ''WIN'' then jmul (amount p) (jdiv (payoutPercentOf p) (Num 100))
      else jneg (amount p))"

definition currentBalance_spec :: "state \<Rightarrow> jsnum" where
  "currentBalance_spec s =
     jadd (bancaInicial s) (foldl (\<lambda>acc p. jadd acc (profit_spec p)) (Num 0) (operacoes s))"

text \<open>
  Follows the interface of the specification, \<open>computeKPIs(state, now)\<close>: the calculation
  of \<open>calcularKPIs\<close> with the time as a parameter, \<open>monthStart\<close> taken from it and
  \<open>monthOps\<close> the operations with \<open>monthStart <= createdAt <= now\<close>. The profit of an
  operation is the one of the code.
\<close>

definition monthOps :: "host \<Rightarrow> int \<Rightarrow> state \<Rightarrow> operacao list" where
  "monthOps h now s =
     filter (\<lambda>p. date_ge (createdAt p) (DateMs (firstOfMonth h now))
                 \<and> date_le (createdAt p) (DateMs now)) (operacoes s)"

definition computeKPIs :: "host \<Rightarrow> int \<Rightarrow> state \<Rightarrow> kpis" where
  "computeKPIs h now s =
     (let ops = operacoes s;
          monthStart = DateMs (firstOfMonth h now);
          currentBalance = jadd (bancaInicial s) (somaProfit ops);
          profitBeforeMonth = somaProfit (filter (\<lambda>p. date_lt (createdAt p) monthStart) ops);
          monthBaseline = jadd (bancaInicial s) profitBeforeMonth;
          mops = monthOps h now s;
          monthWins = length (filter (\<lambda>p. result p = ''WIN'') mops);
          monthLosses = length (filter (\<lambda>p. result p = ''LOSS'') mops);
          monthProfit = somaProfit mops;
          streak = streakLoop ops (length ops) (0, None)
      in \<lparr>bancaAtual = currentBalance,
          baselineMes = monthBaseline,
          variacaoValor = monthProfit,
          variacaoPct = pctDe monthProfit monthBaseline,
          winsMes = monthWins,
          lossesMes = monthLosses,
          taxaAcerto = taxaDe monthWins monthLosses,
          lucroMes = monthProfit,
          mediaMes = mediaDe mops,
          streakAtual = fst streak,
          streakTipo = snd streak,
          streakMax = fst (streakMaxLoop ops (0, 0)),
          ultima = (if ops = [] then None else Some (last ops))\<rparr>)"

text \<open>The rational of a finite number (0 for the others), to write sums of finite amounts.\<close>

fun valorDe :: "jsnum \<Rightarrow> rat" where
  "valorDe (Num a) = a"
| "valorDe _ = 0"

definition finito :: "operacao \<Rightarrow> bool" where
  "finito p = isFinite (amount p)"

definition ganho :: "operacao \<Rightarrow> rat" where
  "ganho p = (if result p = ''WIN'' then valorDe (amount p) else - valorDe (amount p))"

section \<open>Concrete inputs\<close>

text \<open>
  A browser for the examples, in UTC during the last quarter of 2026. It stands for the
  real one on the inputs the examples use: the texts \<open>{}\<close>, \<open>null\<close>, \<open>[]\<close>,
  \<open>textoSnapshot\<close> and \<open>textoToString\<close> for \<open>JSON.parse\<close>, and any other text taken as
  not JSON; the empty string and strings of decimal digits for \<open>Number\<close>; times from
  1 October 2026 to 31 December 2026 for the first instant of the month; strings of
  ASCII characters for \<open>trim\<close>. What the examples state does not depend on the other two
  built-ins.
\<close>

definition textoSnapshot :: string where
  \<open>textoSnapshot = ''{"bancaInicial":1000,"operacoes":[{"amount":10,"result":"win"}]}''\<close>

definition valorSnapshot :: jsval where
  "valorSnapshot =
     JObject [(''bancaInicial'', JNumber (Num 1000)),
              (''operacoes'',
               JArray [JObject [(''amount'', JNumber (Num 10)), (''result'', JString ''win'')]])]"

text \<open>A stored snapshot whose balance is an object with an own property \<open>toString\<close>.\<close>

definition textoToString :: string where
  \<open>textoToString = ''{"bancaInicial":{"toString":1}}''\<close>

definition valorToString :: jsval where
  "valorToString = JObject [(''bancaInicial'', JObject [(''toString'', JNumber (Num 1))])]"

definition parse0 :: "string \<Rightarrow> jsval option" where
  "parse0 r =
     (if r = ''{}'' then Some (JObject [])
      else if r = ''null'' then Some JNull
      else if r = ''[]'' then Some (JArray [])
      else if r = textoSnapshot then Some valorSnapshot
      else if r = textoToString then Some valorToString
      else None)"

definition digito :: "char \<Rightarrow> bool" where
  "digito c = (48 \<le> (of_char c :: nat) \<and> (of_char c :: nat) \<le> 57)"

definition numero0 :: "string \<Rightarrow> jsnum" where
  "numero0 r =
     (if r = [] then Num 0
      else if list_all digito r
      then Num (of_nat (foldl (\<lambda>a c. 10 * a + (of_char c - 48)) (0 :: nat) r))
      else NaN)"

definition mes0 :: "int \<Rightarrow> int" where
  "mes0 t =
     (if t < 1793491200000 then 1790812800000
      else if t < 1796083200000 then 1793491200000
      else 1796083200000)"

text \<open>\<open>String.prototype.trim\<close> on strings of ASCII characters.\<close>

definition isSpace :: "char \<Rightarrow> bool" where
  "isSpace c = (c = CHR '' '' \<or> c = CHR 0x09 \<or> c = CHR 0x0A \<or> c = CHR 0x0B
                \<or> c = CHR 0x0C \<or> c = CHR 0x0D)"

definition trim :: "string \<Rightarrow> string" where
  "trim s = rev (dropWhile isSpace (rev (dropWhile isSpace s)))"

definition host0 :: host where
  "host0 = \<lparr>JSON_parse = parse0, StringToNumber = numero0, NumberToString = (\<lambda>n. []),
            Date_new = (\<lambda>v. InvalidDate), firstOfMonth = mes0, String_trim = trim\<rparr>"

text \<open>Noon of 2 November 2026, and a clock that stands still there.\<close>

definition agora :: int where
  "agora = 1793620800000"

definition relogio0 :: clock where
  "relogio0 k = agora"

text \<open>A clock that advances by one millisecond after its first reading.\<close>

definition relogio1 :: clock where
  "relogio1 k = (if k = 0 then agora else agora + 1)"

text \<open>A clock that stands still for its first two readings.\<close>

definition relogio2 :: clock where
  "relogio2 k = (if k \<le> 1 then agora else agora + 5)"

text \<open>
  The operation of the first scenario: \<open>{amount: 100, result: WIN, payoutPercent: 80}\<close>,
  created now.
\<close>

definition opPayout :: operacao where
  "opPayout = \<lparr>createdAt = DateMs agora, amount = Num 100, result = ''WIN'',
               rest = [(''payoutPercent'', JNumber (Num 80))]\<rparr>"

definition estadoPayout :: state where
  "estadoPayout = \<lparr>bancaInicial = Num 5000, operacoes = [opPayout]\<rparr>"

text \<open>The second scenario: two losses of 50, created now.\<close>

definition opLoss :: operacao where
  "opLoss = \<lparr>createdAt = DateMs agora, amount = Num 50, result = ''LOSS'', rest = []\<rparr>"

definition estadoLoss :: state where
  "estadoLoss = \<lparr>bancaInicial = Num 5000, operacoes = [opLoss, opLoss]\<rparr>"

text \<open>A win dated one millisecond after \<open>agora\<close>, as a stored snapshot can hold.\<close>

definition opFuturo :: operacao where
  "opFuturo = \<lparr>createdAt = DateMs (agora + 1), amount = Num 10, result = ''WIN'', rest = []\<rparr>"

definition estadoFuturo :: state where
  "estadoFuturo = \<lparr>bancaInicial = Num 5000, operacoes = [opFuturo]\<rparr>"

text \<open>A win of 200 in mid October 2026, a loss of 50 and a win of 30 in November.\<close>

definition opOutubro :: operacao where
  "opOutubro = \<lparr>createdAt = DateMs 1792065600000, amount = Num 200, result = ''WIN'', rest = []\<rparr>"

definition opWin :: operacao where
  "opWin = \<lparr>createdAt = DateMs agora, amount = Num 30, result = ''WIN'', rest = []\<rparr>"

definition estadoMisto :: state where
  "estadoMisto = \<lparr>bancaInicial = Num 5000, operacoes = [opOutubro, opLoss, opWin]\<rparr>"

text \<open>Two wins, a loss and a win.\<close>

definition estadoSequencia :: state where
  "estadoSequencia = \<lparr>bancaInicial = Num 5000, operacoes = [opWin, opWin, opLoss, opWin]\<rparr>"

text \<open>A state whose balance at the start of the month is negative.\<close>

definition estadoNegativo :: state where
  "estadoNegativo = \<lparr>bancaInicial = Num (- 10), operacoes = [opWin]\<rparr>"

text \<open>
  A run: the stored snapshot \<open>textoSnapshot\<close>, whose one operation has the result
  \<open>'win'\<close>, is loaded, and a WIN of 10 is appended.
\<close>

definition runExemplo :: "evento list" where
  "runExemplo =
     [Carrega host0 relogio0 (Some textoSnapshot),
      Adiciona host0 ''u1'' agora (JNumber (Num 10)) (JString ''WIN'') (JString []) (JString [])]"

definition formVazio :: form where
  "formVazio = \<lparr>inAmount = [], inPayout = [], inResult = [], inStrategy = [],
                inOperacional = [], inDescription = []\<rparr>"

text \<open>A win of 100 at a payout of 80 per cent, as typed into the form of \<open>sozinho.js\<close>.\<close>

definition formGanho :: form where
  "formGanho = \<lparr>inAmount = ''100'', inPayout = ''80'', inResult = ''WIN'', inStrategy = [],
                inOperacional = ''OTC'', inDescription = []\<rparr>"

section \<open>Lemmas\<close>

subsection \<open>The streak loops\<close>

text \<open>
  The backward loop, started at an index below the last one with a streak type already
  set, adds the length of the run of that type that ends there.
\<close>

lemma streakLoop_run:
  "k < length ops \<Longrightarrow>
   streakLoop ops k (n, Some r) =
     (n + length (takeWhile (\<lambda>p. result p = r) (rev (take k ops))), Some r)"
proof (induction k arbitrary: n)
  case 0
  then show ?case by simp
next
  case (Suc i)
  then have i: "i < length ops" and ne: "i \<noteq> length ops - 1" by auto
  have tk: "rev (take (Suc i) ops) = ops ! i # rev (take i ops)"
    using i by (simp add: take_Suc_conv_app_nth)
  show ?case
  proof (cases "result (ops ! i) = r")
    case True
    then show ?thesis using Suc.IH [OF i, of "n + 1"] ne tk by simp
  next
    case False
    then show ?thesis using ne tk by auto
  qed
qed

lemma streakLoop_none:
  "k < length ops \<Longrightarrow> streakLoop ops k (n, None) = (n, None)"
  by (cases k) auto

lemma streakLoop_snoc:
  "streakLoop (ys @ [y]) (Suc (length ys)) (0, None) =
     (if result y = [] then (0, None)
      else (Suc (length (takeWhile (\<lambda>p. result p = result y) (rev ys))), Some (result y)))"
proof (cases "result y = []")
  case True
  then show ?thesis using streakLoop_none [of "length ys" "ys @ [y]" 0] by simp
next
  case False
  then show ?thesis
    using streakLoop_run [of "length ys" "ys @ [y]" 1 "result y"] by simp
qed

lemma streakLoop_all:
  "ops \<noteq> [] \<Longrightarrow>
   streakLoop ops (length ops) (0, None) =
     (if result (last ops) = [] then (0, None)
      else (length (takeWhile (\<lambda>p. result p = result (last ops)) (rev ops)),
            Some (result (last ops))))"
proof -
  assume "ops \<noteq> []"
  then obtain ys y where ops: "ops = ys @ [y]" by (cases ops rule: rev_cases) auto
  show ?thesis unfolding ops using streakLoop_snoc [of ys y] by simp
qed

lemma takeWhile_all_append:
  "list_all P xs \<Longrightarrow> takeWhile P (xs @ ys) = xs @ takeWhile P ys"
  by (induction xs) auto

lemma takeWhile_notall_append:
  "\<not> list_all P xs \<Longrightarrow> takeWhile P (xs @ ys) = takeWhile P xs"
  by (induction xs) auto

text \<open>
  The forward loop ends with \<open>atual\<close> the length of the run of WIN at the end of the log,
  and with \<open>streakMax\<close> at least \<open>atual\<close>.
\<close>

lemma streakMaxLoop_atual:
  "snd (streakMaxLoop ops (m, a)) =
     (if list_all (\<lambda>p. result p = ''WIN'') ops then a + length ops
      else length (takeWhile (\<lambda>p. result p = ''WIN'') (rev ops)))"
proof (induction ops arbitrary: m a)
  case Nil
  then show ?case by simp
next
  case (Cons p ps)
  show ?case
  proof (cases "list_all (\<lambda>p. result p = ''WIN'') ps")
    case True
    then have "list_all (\<lambda>p. result p = ''WIN'') (rev ps)" by (simp add: list_all_iff)
    then show ?thesis using True Cons.IH by (simp add: takeWhile_all_append)
  next
    case False
    then have "\<not> list_all (\<lambda>p. result p = ''WIN'') (rev ps)" by (simp add: list_all_iff)
    then show ?thesis using False Cons.IH by (simp add: takeWhile_notall_append)
  qed
qed

lemma streakMaxLoop_le:
  "a \<le> m \<Longrightarrow> snd (streakMaxLoop ops (m, a)) \<le> fst (streakMaxLoop ops (m, a))"
  by (induction ops arbitrary: m a) auto

text \<open>The fields of the record \<open>calcularKPIs\<close> returns.\<close>

lemma calc_streak:
  "streakAtual (calcularKPIs h clk s) = fst (streakLoop (operacoes s) (length (operacoes s)) (0, None))"
  "streakTipo (calcularKPIs h clk s) = snd (streakLoop (operacoes s) (length (operacoes s)) (0, None))"
  "streakMax (calcularKPIs h clk s) = fst (streakMaxLoop (operacoes s) (0, 0))"
  "bancaAtual (calcularKPIs h clk s) = jadd (bancaInicial s) (somaProfit (operacoes s))"
  by (simp_all add: calcularKPIs_def Let_def)

lemma streakLoop_char:
  "streakLoop ops (length ops) (0, None) =
     (if ops = [] \<or> result (last ops) = [] then (0, None)
      else (length (takeWhile (\<lambda>p. result p = result (last ops)) (rev ops)),
            Some (result (last ops))))"
proof (cases "ops = []")
  case True
  then show ?thesis by simp
next
  case False
  then show ?thesis using streakLoop_all [OF False] by simp
qed

text \<open>
  \<open>streakMax\<close> is the length of the longest run of WIN: it bounds every run, and one run
  attains it.
\<close>

lemma streakMaxLoop_append:
  "streakMaxLoop (xs @ ys) acc = streakMaxLoop ys (streakMaxLoop xs acc)"
proof (induction xs arbitrary: acc)
  case Nil
  then show ?case by simp
next
  case (Cons x xs)
  then show ?case by (cases acc) simp
qed

lemma streakMaxLoop_fst_mono: "m \<le> fst (streakMaxLoop xs (m, a))"
proof (induction xs arbitrary: m a)
  case Nil
  then show ?case by simp
next
  case (Cons x xs)
  show ?case
  proof (cases "result x = ''WIN''")
    case True
    have "m \<le> max m (a + 1)" by simp
    also have "\<dots> \<le> fst (streakMaxLoop xs (max m (a + 1), a + 1))" by (rule Cons.IH)
    finally show ?thesis using True by simp
  next
    case False
    then show ?thesis using Cons.IH [of m 0] by simp
  qed
qed

lemma streakMaxLoop_wins:
  "list_all (\<lambda>p. result p = ''WIN'') bs \<Longrightarrow> a \<le> m \<Longrightarrow>
   streakMaxLoop bs (m, a) = (max m (a + length bs), a + length bs)"
  by (induction bs arbitrary: m a) (auto simp: max_def)

lemma streakMaxLoop_bounds_run:
  assumes "list_all (\<lambda>p. result p = ''WIN'') bs"
  shows "length bs \<le> fst (streakMaxLoop (as @ bs @ cs) (0, 0))"
proof -
  obtain m a where ma: "streakMaxLoop as (0, 0) = (m, a)" by (cases "streakMaxLoop as (0, 0)")
  have "length bs \<le> max m (a + length bs)" by simp
  also have "\<dots> \<le> fst (streakMaxLoop cs (max m (a + length bs), a + length bs))"
    by (rule streakMaxLoop_fst_mono)
  finally show ?thesis
    using assms ma streakMaxLoop_le [of 0 0 as]
    by (simp add: streakMaxLoop_append streakMaxLoop_wins)
qed

lemma streakMaxLoop_snoc:
  "streakMaxLoop (xs @ [x]) (0, 0) =
     (if result x = ''WIN''
      then (max (fst (streakMaxLoop xs (0, 0))) (snd (streakMaxLoop xs (0, 0)) + 1),
            snd (streakMaxLoop xs (0, 0)) + 1)
      else (fst (streakMaxLoop xs (0, 0)), 0))"
  by (cases "streakMaxLoop xs (0, 0)") (simp add: streakMaxLoop_append)

lemma takeWhile_all_length: "list_all P xs \<Longrightarrow> length (takeWhile P xs) = length xs"
  by (induction xs) auto

lemma streakMaxLoop_tail:
  "snd (streakMaxLoop xs (0, 0)) = length (takeWhile (\<lambda>p. result p = ''WIN'') (rev xs))"
proof (cases "list_all (\<lambda>p. result p = ''WIN'') xs")
  case True
  then have "list_all (\<lambda>p. result p = ''WIN'') (rev xs)" by (simp add: list_all_iff)
  then show ?thesis
    using True takeWhile_all_length [of "\<lambda>p. result p = ''WIN''" "rev xs"]
    by (simp add: streakMaxLoop_atual)
next
  case False
  then show ?thesis by (simp add: streakMaxLoop_atual)
qed

lemma streakMaxLoop_attained:
  "\<exists>as bs cs. xs = as @ bs @ cs \<and> list_all (\<lambda>p. result p = ''WIN'') bs
     \<and> length bs = fst (streakMaxLoop xs (0, 0))"
proof (induction xs rule: rev_induct)
  case Nil
  then show ?case by simp
next
  case (snoc x xs)
  let ?W = "\<lambda>p. result p = ''WIN''"
  let ?m = "fst (streakMaxLoop xs (0, 0))"
  let ?a = "snd (streakMaxLoop xs (0, 0))"
  from snoc obtain as bs cs where
    old: "xs = as @ bs @ cs" "list_all ?W bs" "length bs = ?m" by blast
  show ?case
  proof (cases "result x = ''WIN'' \<and> ?m < ?a + 1")
    case True
    let ?t = "takeWhile ?W (rev xs)"
    have split: "xs = rev (dropWhile ?W (rev xs)) @ rev ?t"
      by (metis rev_append rev_rev_ident takeWhile_dropWhile_id)
    have allt: "list_all ?W (rev ?t @ [x])"
      using True by (auto simp: list_all_iff dest: set_takeWhileD)
    have len: "length (rev ?t @ [x]) = fst (streakMaxLoop (xs @ [x]) (0, 0))"
      using True by (simp add: streakMaxLoop_snoc streakMaxLoop_tail max_def)
    have "xs @ [x] = rev (dropWhile ?W (rev xs)) @ (rev ?t @ [x]) @ []"
      using split by simp
    then show ?thesis using allt len by blast
  next
    case False
    then have "fst (streakMaxLoop (xs @ [x]) (0, 0)) = ?m"
      by (auto simp: streakMaxLoop_snoc max_def)
    moreover have "xs @ [x] = as @ bs @ (cs @ [x])" using old(1) by simp
    ultimately show ?thesis using old(2,3) by metis
  qed
qed


lemma calc_fields:
  "baselineMes (calcularKPIs h clk s) = jadd (bancaInicial s) (profitAntesMesOf h clk s)"
  "lucroMes (calcularKPIs h clk s) = somaProfit (opsMesOf h clk s)"
  "variacaoValor (calcularKPIs h clk s) = somaProfit (opsMesOf h clk s)"
  "variacaoPct (calcularKPIs h clk s) =
     pctDe (somaProfit (opsMesOf h clk s)) (jadd (bancaInicial s) (profitAntesMesOf h clk s))"
  "winsMes (calcularKPIs h clk s) = length (filter (\<lambda>p. result p = ''WIN'') (opsMesOf h clk s))"
  "lossesMes (calcularKPIs h clk s) = length (filter (\<lambda>p. result p = ''LOSS'') (opsMesOf h clk s))"
  "taxaAcerto (calcularKPIs h clk s) =
     taxaDe (length (filter (\<lambda>p. result p = ''WIN'') (opsMesOf h clk s)))
            (length (filter (\<lambda>p. result p = ''LOSS'') (opsMesOf h clk s)))"
  "mediaMes (calcularKPIs h clk s) = mediaDe (opsMesOf h clk s)"
  "ultima (calcularKPIs h clk s) = (if operacoes s = [] then None else Some (last (operacoes s)))"
  by (simp_all add: calcularKPIs_def Let_def)

subsection \<open>Sums, rates and percentages\<close>

lemma foldl_profit_finito:
  "list_all finito ops \<Longrightarrow>
   foldl (\<lambda>acc p. jadd acc (profit p)) (Num a) ops = Num (a + sum_list (map ganho ops))"
proof (induction ops arbitrary: a)
  case Nil
  then show ?case by simp
next
  case (Cons p ps)
  then obtain x where x: "amount p = Num x"
    by (cases "amount p") (auto simp: finito_def)
  have "jadd (Num a) (profit p) = Num (a + ganho p)"
    by (simp add: profit_def ganho_def x)
  then show ?case using Cons by (simp add: add.assoc)
qed

lemma of_nat_sum_pos: "0 < w + l \<Longrightarrow> (0 :: rat) < of_nat (w + l)"
  by (simp only: of_nat_0_less_iff)

lemma taxaDe_formula:
  "0 < w + l \<Longrightarrow> taxaDe w l = Num (of_nat w / of_nat (w + l) * 100)"
proof -
  assume p: "0 < w + l"
  then have "(of_nat (w + l) :: rat) \<noteq> 0" using of_nat_sum_pos [of w l] by simp
  then have "jdiv (Num (of_nat w)) (Num (of_nat (w + l))) = Num (of_nat w / of_nat (w + l))"
    by (simp only: jdiv.simps if_False)
  then show ?thesis using p by (simp only: taxaDe_def if_True jmul.simps)
qed

lemma taxaDe_zero: "w + l = 0 \<Longrightarrow> taxaDe w l = Num 0"
  by (simp add: taxaDe_def)

lemma taxaDe_range: "jle (Num 0) (taxaDe w l) \<and> jle (taxaDe w l) (Num 100)"
proof (cases "0 < w + l")
  case True
  have le: "(of_nat w :: rat) \<le> of_nat (w + l)" by simp
  have pos: "(0 :: rat) < of_nat (w + l)" using True by (rule of_nat_sum_pos)
  define q :: rat where "q = of_nat w / of_nat (w + l)"
  have "q \<le> 1" unfolding q_def using le pos by (simp only: divide_le_eq_1_pos)
  moreover have "0 \<le> q" unfolding q_def using pos by (simp del: of_nat_add)
  ultimately have "0 \<le> q * 100 \<and> q * 100 \<le> 100" by simp
  then show ?thesis by (simp only: taxaDe_formula [OF True] jle.simps q_def)
next
  case False
  then show ?thesis by (simp add: taxaDe_def)
qed





subsection \<open>The readings of the clock\<close>

lemma filtraMes_cong:
  "(\<And>j. k \<le> j \<Longrightarrow> j < k + length ps \<Longrightarrow> c1 j = c2 j) \<Longrightarrow>
   filtraMes st c1 k ps = filtraMes st c2 k ps"
proof (induction ps arbitrary: k)
  case Nil
  then show ?case by simp
next
  case (Cons p ps)
  have here: "c1 k = c2 k" using Cons.prems [of k] by simp
  have a: "filtraMes st c1 (Suc k) ps = filtraMes st c2 (Suc k) ps"
    by (rule Cons.IH) (use Cons.prems in auto)
  have b: "filtraMes st c1 k ps = filtraMes st c2 k ps"
    by (rule Cons.IH) (use Cons.prems in auto)
  show ?case using here a b by simp
qed

lemma filtraMes_const:
  "fst (filtraMes st (\<lambda>k. now) k ps) =
     filter (\<lambda>p. date_ge (createdAt p) st \<and> date_le (createdAt p) (DateMs now)) ps"
  by (induction ps arbitrary: k) (auto simp: split_beta Let_def)

subsection \<open>The loader and the stored results\<close>

lemma getProp_ok: "v \<noteq> JNull \<Longrightarrow> v \<noteq> JUndefined \<Longrightarrow> getProp v key = Inr (campo v key)"
  by (cases v) (auto simp: campo_def split: option.splits)

lemma carregaOp_result:
  "carregaOp h clk k v = Inr (p, k') \<Longrightarrow> result p = normResult (campo v ''result'')"
  unfolding carregaOp_def campo_def
  by (auto split: sum.splits prod.splits if_splits)

lemma normResult_winLoss: "normResult r = ''WIN'' \<or> normResult r = ''LOSS''"
  by (simp add: normResult_def)

lemma carregaOp_winLoss: "carregaOp h clk k v = Inr (p, k') \<Longrightarrow> winLoss p"
  using normResult_winLoss [of "campo v ''result''"]
  by (auto simp: winLoss_def dest!: carregaOp_result)

lemma carregaOps_winLoss:
  "carregaOps h clk k vs = Inr (ps, k') \<Longrightarrow> list_all winLoss ps"
proof (induction vs arbitrary: k ps k')
  case Nil
  then show ?case by simp
next
  case (Cons v vs)
  then show ?case
    by (auto split: sum.splits prod.splits dest: carregaOp_winLoss)
qed

lemma corpoCarregar_winLoss:
  "list_all winLoss (operacoes s) \<Longrightarrow>
   list_all winLoss (operacoes (snd (corpoCarregar h clk r s)))"
  by (auto simp: corpoCarregar_def Let_def
      split: option.splits sum.splits jsval.splits prod.splits dest: carregaOps_winLoss)

text \<open>The state \<open>carregarLocal\<close> leaves, and that no exception leaves it.\<close>

lemma carregarLocal_eq:
  "carregarLocal h clk raw s =
     (case raw of None \<Rightarrow> s | Some r \<Rightarrow> if r = [] then s else snd (corpoCarregar h clk r s))"
  by (simp add: carregarLocal_def chamaCarregarLocal_def split: option.splits prod.splits)

lemma chamaCarregarLocal_nao_lanca: "fst (chamaCarregarLocal h clk raw s) = None"
  by (simp add: chamaCarregarLocal_def split: option.splits prod.splits)

lemma carregarLocal_winLoss:
  "list_all winLoss (operacoes s) \<Longrightarrow> list_all winLoss (operacoes (carregarLocal h clk raw s))"
  by (simp add: carregarLocal_eq corpoCarregar_winLoss split: option.splits)

lemma novaOperacao_result:
  "novaOperacao h uid now amt res strategy description = Inr p \<Longrightarrow> result p = normResult res"
  by (auto simp: novaOperacao_def split: sum.splits)

lemma adicionarOperacao_result:
  "Number_of h amt = Inr n \<Longrightarrow>
   result (last (operacoes (adicionarOperacao h uid now amt res strategy description s)))
     = normResult res"
  by (simp add: adicionarOperacao_def novaOperacao_def)

lemma adicionarOperacao_lanca:
  "Number_of h amt = Inl e \<Longrightarrow>
   adicionarOperacao h uid now amt res strategy description s = s"
  by (simp add: adicionarOperacao_def novaOperacao_def)

lemma adicionarOperacao_winLoss:
  "list_all winLoss (operacoes s) \<Longrightarrow>
   list_all winLoss (operacoes (adicionarOperacao h uid now amt res strategy description s))"
  using normResult_winLoss [of res]
  by (auto simp: adicionarOperacao_def novaOperacao_def winLoss_def split: sum.splits)

lemma executa_winLoss:
  "list_all winLoss (operacoes s) \<Longrightarrow> list_all winLoss (operacoes (executa s e))"
  by (cases e) (simp_all add: carregarLocal_winLoss adicionarOperacao_winLoss)

lemma foldl_executa_winLoss:
  "list_all winLoss (operacoes s) \<Longrightarrow> list_all winLoss (operacoes (foldl executa s evs))"
  by (induction evs arbitrary: s) (simp_all add: executa_winLoss)

lemma corre_winLoss: "list_all winLoss (operacoes (corre evs))"
  unfolding corre_def by (rule foldl_executa_winLoss) (simp add: state0_def)

lemma filtraMes_winLoss:
  "list_all winLoss ps \<Longrightarrow> list_all winLoss (fst (filtraMes st clk k ps))"
  by (induction ps arbitrary: k) (auto simp: split_beta Let_def)

lemma wins_losses_length:
  "list_all winLoss ps \<Longrightarrow>
   length (filter (\<lambda>p. result p = ''WIN'') ps) + length (filter (\<lambda>p. result p = ''LOSS'') ps)
     = length ps"
  by (induction ps) (auto simp: winLoss_def)

lemma carregar_ausente: "carregarLocal h clk None s = s" "carregarLocal h clk (Some []) s = s"
  by (simp_all add: carregarLocal_eq)

lemma carregar_syntax: "JSON_parse h r = None \<Longrightarrow> carregarLocal h clk (Some r) s = s"
  by (simp add: carregarLocal_eq corpoCarregar_def)

lemma carregar_null: "JSON_parse h r = Some JNull \<Longrightarrow> carregarLocal h clk (Some r) s = s"
  by (simp add: carregarLocal_eq corpoCarregar_def)

lemma carregar_banca:
  "JSON_parse h r = Some v \<Longrightarrow> r \<noteq> [] \<Longrightarrow> v \<noteq> JNull \<Longrightarrow> v \<noteq> JUndefined \<Longrightarrow>
   Number_of h (campo v ''bancaInicial'') = Inr n \<Longrightarrow>
   bancaInicial (carregarLocal h clk (Some r) s) = (if falsy_num n then Num 0 else n)"
  by (auto simp: carregarLocal_eq corpoCarregar_def getProp_ok numberOrZero_def Let_def
      split: jsval.splits sum.splits prod.splits)

lemma carregar_lanca:
  "JSON_parse h r = Some v \<Longrightarrow> v \<noteq> JNull \<Longrightarrow> v \<noteq> JUndefined \<Longrightarrow>
   Number_of h (campo v ''bancaInicial'') = Inl e \<Longrightarrow>
   carregarLocal h clk (Some r) s = s"
  by (simp add: carregarLocal_eq corpoCarregar_def getProp_ok numberOrZero_def)

lemma carregar_naoArray:
  "JSON_parse h r = Some v \<Longrightarrow> r \<noteq> [] \<Longrightarrow> v \<noteq> JNull \<Longrightarrow> v \<noteq> JUndefined \<Longrightarrow>
   Number_of h (campo v ''bancaInicial'') = Inr n \<Longrightarrow>
   \<not> isArray (campo v ''operacoes'') \<Longrightarrow>
   operacoes (carregarLocal h clk (Some r) s) = []"
  by (auto simp: carregarLocal_eq corpoCarregar_def getProp_ok numberOrZero_def Let_def
      split: jsval.splits sum.splits prod.splits)

lemma carregar_naoArray_inicial:
  assumes "JSON_parse h r = Some v" "r \<noteq> []" "v \<noteq> JNull" "v \<noteq> JUndefined"
    and "\<not> isArray (campo v ''operacoes'')"
  shows "operacoes (carregarLocal h clk (Some r) state0) = []"
proof (cases "Number_of h (campo v ''bancaInicial'')")
  case (Inl e)
  then have "carregarLocal h clk (Some r) state0 = state0"
    using assms by (simp add: carregar_lanca)
  then show ?thesis by (simp add: state0_def)
next
  case (Inr n)
  then show ?thesis using assms by (simp add: carregar_naoArray)
qed

subsection \<open>The submit handlers\<close>

lemma amountInvalid_iff: "amountInvalid a \<longleftrightarrow> \<not> jgt a (Num 0)"
  by (cases a) (auto simp: amountInvalid_def jgt_def)

lemma amountInvalid_positivo:
  "amountInvalid a \<longleftrightarrow> \<not> (a = PosInf \<or> (\<exists>x. a = Num x \<and> 0 < x))"
  by (cases a) (auto simp: amountInvalid_def)

lemma payoutInvalid_iff: "payoutInvalid q \<longleftrightarrow> \<not> (\<exists>x. q = Num x \<and> 0 \<le> x \<and> x \<le> 100)"
  by (cases q) (auto simp: payoutInvalid_def jgt_def)

lemma setMsg_setMsg: "setMsg t (setMsg u el) = setMsg t el"
  by (cases el) simp_all

lemma submitMain_rejeita:
  "amountInvalid (StringToNumber h (inAmount f)) \<or> resultInvalid (inResult f) \<Longrightarrow>
   snd (submitMain h uid now f (el, s)) = s \<and>
   fst (submitMain h uid now f (el, s)) =
     setMsg (Some (if amountInvalid (StringToNumber h (inAmount f))
                   then ValorInvalido else ResultadoInvalido)) el"
  by (auto simp: submitMain_def Let_def setMsg_setMsg)

lemma submitSozinho_rejeita:
  "amountInvalid (StringToNumber h (inAmount f))
     \<or> payoutInvalid (StringToNumber h (inPayout f))
     \<or> resultInvalid (inResult f) \<Longrightarrow>
   snd (submitSozinho h f (el, w)) = w \<and>
   fst (submitSozinho h f (el, w)) =
     setMsg (Some (if amountInvalid (StringToNumber h (inAmount f))
                   then ValorInvalidoMaiorZero
                   else if payoutInvalid (StringToNumber h (inPayout f))
                   then PayoutInvalido else ResultadoInvalido)) el"
  by (auto simp: submitSozinho_def Let_def setMsg_setMsg)

lemma submitSozinho_aceita:
  "\<not> amountInvalid (StringToNumber h (inAmount f)) \<Longrightarrow>
   \<not> payoutInvalid (StringToNumber h (inPayout f)) \<Longrightarrow>
   \<not> resultInvalid (inResult f) \<Longrightarrow> inOperacional f \<noteq> [] \<Longrightarrow>
   banca (snd (submitSozinho h f (el, w))) =
     jadd (banca w)
       (if inResult f = ''WIN''
        then jmul (StringToNumber h (inAmount f))
               (jdiv (StringToNumber h (inPayout f)) (Num 100))
        else jneg (StringToNumber h (inAmount f)))"
  by (simp add: submitSozinho_def Let_def deltaSozinho_def)

subsection \<open>The concrete inputs, evaluated\<close>

lemma numero0_100: "numero0 ''100'' = Num 100" "numero0 ''80'' = Num 80" "numero0 [] = Num 0"
  by (simp_all add: numero0_def digito_def)

lemma host0_simps:
  "JSON_parse host0 = parse0" "StringToNumber host0 = numero0" "firstOfMonth host0 = mes0"
  "String_trim host0 = trim"
  by (simp_all add: host0_def)

lemma sozinho_cenario:
  "banca (snd (submitSozinho host0 formGanho (el, \<lparr>banca = Num 5000, guardado = g\<rparr>))) = Num 5080"
proof -
  have f: "inAmount formGanho = ''100''" "inPayout formGanho = ''80''"
    "inResult formGanho = ''WIN''" "inOperacional formGanho = ''OTC''"
    by (simp_all add: formGanho_def)
  have ok: "\<not> amountInvalid (Num 100)" "\<not> payoutInvalid (Num 80)" "\<not> resultInvalid ''WIN''"
    by (simp_all add: amountInvalid_def payoutInvalid_def resultInvalid_def jgt_def)
  show ?thesis
    using submitSozinho_aceita [of host0 formGanho el "\<lparr>banca = Num 5000, guardado = g\<rparr>"] ok
    by (simp add: f host0_simps numero0_100)
qed

lemma ex_simps:
  "operacoes estadoMisto = [opOutubro, opLoss, opWin]" "bancaInicial estadoMisto = Num 5000"
  "operacoes estadoNegativo = [opWin]" "bancaInicial estadoNegativo = Num (- 10)"
  "operacoes estadoFuturo = [opFuturo]" "bancaInicial estadoFuturo = Num 5000"
  "operacoes estadoPayout = [opPayout]" "bancaInicial estadoPayout = Num 5000"
  by (simp_all add: estadoMisto_def estadoNegativo_def estadoFuturo_def estadoPayout_def)

lemma op_simps:
  "createdAt opOutubro = DateMs 1792065600000" "amount opOutubro = Num 200" "result opOutubro = ''WIN''"
  "createdAt opLoss = DateMs agora" "amount opLoss = Num 50" "result opLoss = ''LOSS''"
  "createdAt opWin = DateMs agora" "amount opWin = Num 30" "result opWin = ''WIN''"
  "createdAt opFuturo = DateMs (agora + 1)" "amount opFuturo = Num 10" "result opFuturo = ''WIN''"
  "createdAt opPayout = DateMs agora" "amount opPayout = Num 100" "result opPayout = ''WIN''"
  "rest opPayout = [(''payoutPercent'', JNumber (Num 80))]"
  by (simp_all add: opOutubro_def opLoss_def opWin_def opFuturo_def opPayout_def)

lemma mes0_agora: "mes0 agora = 1793491200000" "mes0 (agora + 1) = 1793491200000"
  by (simp_all add: mes0_def agora_def)

lemma start0: "startMonthOf host0 relogio0 = DateMs 1793491200000"
  "startMonthOf host0 relogio1 = DateMs 1793491200000"
  by (simp_all add: startMonthOf_def inicioDoMesAtual_def host0_simps relogio0_def relogio1_def mes0_agora)

lemma opsMes_misto: "opsMesOf host0 relogio0 estadoMisto = [opLoss, opWin]"
  by (simp add: opsMesOf_def start0 inicioDoMesAtual_def ex_simps op_simps date_ge_def
      relogio0_def agora_def)

lemma opsMes_futuro0: "opsMesOf host0 relogio0 estadoFuturo = []"
  by (simp add: opsMesOf_def start0 inicioDoMesAtual_def ex_simps op_simps date_ge_def
      relogio0_def agora_def)

lemma opsMes_futuro1: "opsMesOf host0 relogio1 estadoFuturo = [opFuturo]"
  by (simp add: opsMesOf_def start0 inicioDoMesAtual_def ex_simps op_simps date_ge_def
      relogio1_def agora_def)




lemma ex_seq: "operacoes estadoSequencia = [opWin, opWin, opLoss, opWin]"
  by (simp add: estadoSequencia_def)

lemma finito_misto: "list_all finito (operacoes estadoMisto)"
  by (simp add: ex_simps finito_def op_simps)

lemma ganho_misto: "sum_list (map ganho (operacoes estadoMisto)) = 180"
  by (simp add: ex_simps ganho_def op_simps)

lemma formGanho_aceito:
  "\<not> amountInvalid (StringToNumber host0 (inAmount formGanho))"
  "\<not> payoutInvalid (StringToNumber host0 (inPayout formGanho))"
  "\<not> resultInvalid (inResult formGanho)" "inOperacional formGanho \<noteq> []"
  by (simp_all add: formGanho_def host0_simps numero0_100 amountInvalid_def payoutInvalid_def
      resultInvalid_def jgt_def)

subsection \<open>The KPIs as a function of the clock\<close>

lemma calcularKPIs_cong:
  "startMonthOf h c1 = startMonthOf h c2 \<Longrightarrow> opsMesOf h c1 s = opsMesOf h c2 s \<Longrightarrow>
   calcularKPIs h c1 s = calcularKPIs h c2 s"
  by (simp add: calcularKPIs_def profitAntesMesOf_def)

lemma opsMesOf_cong:
  assumes "\<And>j. j \<le> length (operacoes s) \<Longrightarrow> c1 j = c2 j"
  shows "startMonthOf h c1 = startMonthOf h c2" and "opsMesOf h c1 s = opsMesOf h c2 s"
proof -
  have z: "c1 0 = c2 0" using assms [of 0] by simp
  then show st: "startMonthOf h c1 = startMonthOf h c2"
    by (simp add: startMonthOf_def inicioDoMesAtual_def)
  have "filtraMes (startMonthOf h c2) c1 (Suc 0) (operacoes s) =
        filtraMes (startMonthOf h c2) c2 (Suc 0) (operacoes s)"
    by (rule filtraMes_cong) (use assms in auto)
  then show "opsMesOf h c1 s = opsMesOf h c2 s"
    using st by (simp add: opsMesOf_def inicioDoMesAtual_def)
qed

lemma opsMesOf_const: "opsMesOf h (\<lambda>k. now) s = monthOps h now s"
  by (simp add: opsMesOf_def monthOps_def startMonthOf_def inicioDoMesAtual_def filtraMes_const)

lemma calcularKPIs_const: "calcularKPIs h (\<lambda>k. now) s = computeKPIs h now s"
  by (simp add: calcularKPIs_def computeKPIs_def opsMesOf_const profitAntesMesOf_def
      startMonthOf_def inicioDoMesAtual_def)

subsection \<open>Loading the concrete snapshots\<close>

lemma parse0_simps:
  "parse0 ''{}'' = Some (JObject [])" "parse0 ''null'' = Some JNull"
  "parse0 ''x'' = None" "parse0 textoSnapshot = Some valorSnapshot"
  "parse0 textoToString = Some valorToString"
  by (simp_all add: parse0_def textoSnapshot_def textoToString_def)

lemma carregar_vazio:
  "carregarLocal host0 relogio0 (Some ''{}'') state0 = \<lparr>bancaInicial = Num 0, operacoes = []\<rparr>"
  by (simp add: carregarLocal_eq corpoCarregar_def host0_simps parse0_simps numberOrZero_def
      state0_def)

lemma carregar_snapshot:
  "carregarLocal host0 relogio0 (Some textoSnapshot) state0 =
     \<lparr>bancaInicial = Num 1000,
      operacoes = [\<lparr>createdAt = DateMs agora, amount = Num 10, result = ''LOSS'', rest = []\<rparr>]\<rparr>"
proof -
  have ne: "textoSnapshot \<noteq> []" by (simp add: textoSnapshot_def)
  have op: "carregaOp host0 relogio0 0
      (JObject [(''amount'', JNumber (Num 10)), (''result'', JString ''win'')]) =
      Inr (\<lparr>createdAt = DateMs agora, amount = Num 10, result = ''LOSS'', rest = []\<rparr>, Suc 0)"
    by (simp add: carregaOp_def normResult_def relogio0_def)
  show ?thesis
    using ne by (simp add: carregarLocal_eq corpoCarregar_def host0_simps parse0_simps
        valorSnapshot_def numberOrZero_def state0_def op)
qed

text \<open>
  A balance that is an object with an own property \<open>toString\<close>: \<open>Number\<close> throws, and the
  state stays as it was.
\<close>

lemma number_toString_lanca:
  "Number_of h (JObject [(''toString'', JNumber (Num 1))]) = Inl TypeError"
  by simp

lemma carregar_toString:
  "carregarLocal host0 relogio0 (Some textoToString) state0 = state0"
proof -
  have ne: "textoToString \<noteq> []" by (simp add: textoToString_def)
  show ?thesis
    using ne by (simp add: carregarLocal_eq corpoCarregar_def host0_simps parse0_simps
        valorToString_def numberOrZero_def)
qed

lemma corre_exemplo_ops:
  "operacoes (corre runExemplo) =
     [\<lparr>createdAt = DateMs agora, amount = Num 10, result = ''LOSS'', rest = []\<rparr>,
      \<lparr>createdAt = DateMs agora, amount = Num 10, result = ''WIN'',
         rest = [(''id'', JString ''u1''), (''strategy'', JString []),
                 (''description'', JString [])]\<rparr>]"
  by (simp add: corre_def runExemplo_def carregar_snapshot adicionarOperacao_def
      novaOperacao_def normResult_def orEmpty_def)

lemma opsMes_exemplo: "length (opsMesOf host0 relogio0 (corre runExemplo)) = 2"
  by (simp add: opsMesOf_def start0 inicioDoMesAtual_def corre_exemplo_ops date_ge_def
      relogio0_def agora_def)

lemma wins_exemplo: "winsMes (calcularKPIs host0 relogio0 (corre runExemplo)) = 1"
  by (simp add: calc_fields opsMesOf_def start0 inicioDoMesAtual_def corre_exemplo_ops date_ge_def
      relogio0_def agora_def)

lemma corre_exemplo:
  "map result (operacoes (corre runExemplo)) = [''LOSS'', ''WIN'']"
  by (simp add: corre_def runExemplo_def carregar_snapshot adicionarOperacao_def
      novaOperacao_def normResult_def)

text \<open>
  In \<open>sozinho.js\<close> an absent entry gives the balance 0: \<open>Number(null)\<close> is 0, which is
  finite.
\<close>

lemma sozinho_ausente: "bancaInicialSozinho h None = Num 0"
  by (simp add: bancaInicialSozinho_def)

section \<open>The claims\<close>

subsection \<open>The balance\<close>

text \<open>
  C1, as amended. In the script that keeps the log, the current balance is the initial
  balance plus the sum over the log of the profit of each operation, where the profit is
  the amount for a WIN and minus the amount otherwise; no payout percentage is read, so
  the other properties of an operation do not change it. For finite amounts the sum is
  the sum of the signed amounts. For the initial balance 5000 and the single operation
  \<open>{amount: 100, result: WIN, payoutPercent: 80}\<close> the profit is 100 and the balance 5100.
  In \<open>sozinho.js\<close>, which keeps no log, a submission that passes the validation adds
  \<open>amount * (payoutPercent / 100)\<close> to the balance for a WIN and subtracts the amount for
  a LOSS: from 5000, a WIN of 100 at 80 per cent gives 5080.
\<close>

theorem bancaAtual_soma_profit:
  "bancaAtual (calcularKPIs h clk s) =
     jadd (bancaInicial s) (foldl (\<lambda>acc p. jadd acc (profit p)) (Num 0) (operacoes s))
   \<and> profit p = (if result p = ''WIN'' then amount p else jneg (amount p))
   \<and> profit (p\<lparr>rest := r\<rparr>) = profit p
   \<and> (list_all finito (operacoes s) \<longrightarrow>
        bancaAtual (calcularKPIs h clk s) =
          jadd (bancaInicial s) (Num (sum_list (map ganho (operacoes s)))))
   \<and> profit opPayout = Num 100
   \<and> bancaAtual (calcularKPIs h clk estadoPayout) = Num 5100
   \<and> (\<not> amountInvalid (StringToNumber h (inAmount f))
        \<and> \<not> payoutInvalid (StringToNumber h (inPayout f))
        \<and> \<not> resultInvalid (inResult f) \<and> inOperacional f \<noteq> [] \<longrightarrow>
        banca (snd (submitSozinho h f (el, w))) =
          jadd (banca w)
            (if inResult f = ''WIN''
             then jmul (StringToNumber h (inAmount f))
                    (jdiv (StringToNumber h (inPayout f)) (Num 100))
             else jneg (StringToNumber h (inAmount f))))
   \<and> banca (snd (submitSozinho host0 formGanho (el, \<lparr>banca = Num 5000, guardado = g\<rparr>))) = Num 5080"
proof -
  have a: "bancaAtual (calcularKPIs h clk s) =
     jadd (bancaInicial s) (foldl (\<lambda>acc p. jadd acc (profit p)) (Num 0) (operacoes s))"
    by (simp add: calc_streak somaProfit_def)
  have b: "profit p = (if result p = ''WIN'' then amount p else jneg (amount p))"
    "profit (p\<lparr>rest := r\<rparr>) = profit p"
    by (simp_all add: profit_def)
  have c: "list_all finito (operacoes s) \<longrightarrow>
        bancaAtual (calcularKPIs h clk s) =
          jadd (bancaInicial s) (Num (sum_list (map ganho (operacoes s))))"
    using foldl_profit_finito [of "operacoes s" 0]
    by (simp add: calc_streak somaProfit_def)
  have d: "profit opPayout = Num 100" by (simp add: profit_def op_simps)
  have e: "bancaAtual (calcularKPIs h clk estadoPayout) = Num 5100"
    by (simp add: calc_streak somaProfit_def ex_simps d)
  have f: "\<not> amountInvalid (StringToNumber h (inAmount f))
        \<and> \<not> payoutInvalid (StringToNumber h (inPayout f))
        \<and> \<not> resultInvalid (inResult f) \<and> inOperacional f \<noteq> [] \<longrightarrow>
        banca (snd (submitSozinho h f (el, w))) =
          jadd (banca w)
            (if inResult f = ''WIN''
             then jmul (StringToNumber h (inAmount f))
                    (jdiv (StringToNumber h (inPayout f)) (Num 100))
             else jneg (StringToNumber h (inAmount f)))"
    using submitSozinho_aceita [of h f el w] by blast
  show ?thesis using a b c d e f sozinho_cenario [of el g] by blast
qed

text \<open>
  The theorem of C1 at the state with a win of 200, a loss of 50 and a win of 30 on 5000
  (balance 5180), and at the form of \<open>sozinho.js\<close> holding a win of 100 at 80 per cent.
\<close>

theorem bancaAtual_soma_profit_witness:
  "list_all finito (operacoes estadoMisto)
   \<and> bancaAtual (calcularKPIs host0 relogio0 estadoMisto) = Num 5180
   \<and> \<not> amountInvalid (StringToNumber host0 (inAmount formGanho))
   \<and> \<not> payoutInvalid (StringToNumber host0 (inPayout formGanho))
   \<and> \<not> resultInvalid (inResult formGanho) \<and> inOperacional formGanho \<noteq> []
   \<and> banca (snd (submitSozinho host0 formGanho (NoElement, \<lparr>banca = Num 5000, guardado = None\<rparr>)))
       = jadd (Num 5000) (jmul (Num 100) (jdiv (Num 80) (Num 100)))"
proof -
  note t = bancaAtual_soma_profit [of host0 relogio0 estadoMisto opWin "[]" formGanho
      NoElement "\<lparr>banca = Num 5000, guardado = None\<rparr>" None]
  from t have "list_all finito (operacoes estadoMisto) \<longrightarrow>
      bancaAtual (calcularKPIs host0 relogio0 estadoMisto) =
        jadd (bancaInicial estadoMisto) (Num (sum_list (map ganho (operacoes estadoMisto))))"
    by blast
  then have a: "bancaAtual (calcularKPIs host0 relogio0 estadoMisto) = Num 5180"
    using finito_misto by (simp only: ganho_misto ex_simps(2) jadd.simps) simp
  from t formGanho_aceito
  have "banca (snd (submitSozinho host0 formGanho (NoElement, \<lparr>banca = Num 5000, guardado = None\<rparr>)))
     = jadd (banca \<lparr>banca = Num 5000, guardado = None\<rparr>)
         (if inResult formGanho = ''WIN''
          then jmul (StringToNumber host0 (inAmount formGanho))
                 (jdiv (StringToNumber host0 (inPayout formGanho)) (Num 100))
          else jneg (StringToNumber host0 (inAmount formGanho)))"
    by blast
  then have b: "banca (snd (submitSozinho host0 formGanho (NoElement, \<lparr>banca = Num 5000, guardado = None\<rparr>)))
       = jadd (Num 5000) (jmul (Num 100) (jdiv (Num 80) (Num 100)))"
    by (simp add: formGanho_def host0_simps numero0_100)
  show ?thesis using finito_misto a formGanho_aceito b by blast
qed

text \<open>
  C1 as stated fails on \<open>calcularKPIs\<close>: for the initial balance 5000 and the single
  operation \<open>{amount: 100, result: WIN, payoutPercent: 80}\<close>, the profit of the
  specification is 80 and its balance 5080, and the script computes 5100.
\<close>

theorem bancaAtual_payout_counterexample:
  "profit_spec opPayout = Num 80
   \<and> currentBalance_spec estadoPayout = Num 5080
   \<and> bancaAtual (calcularKPIs host0 relogio0 estadoPayout) = Num 5100
   \<and> bancaAtual (calcularKPIs host0 relogio0 estadoPayout) \<noteq> currentBalance_spec estadoPayout"
proof -
  have p: "profit_spec opPayout = Num 80"
    by (simp add: profit_spec_def payoutPercentOf_def op_simps)
  have c: "currentBalance_spec estadoPayout = Num 5080"
    by (simp add: currentBalance_spec_def ex_simps p)
  have b: "bancaAtual (calcularKPIs host0 relogio0 estadoPayout) = Num 5100"
    by (simp add: calc_streak somaProfit_def ex_simps profit_def op_simps)
  show ?thesis using p c b by simp
qed

subsection \<open>The streaks\<close>

text \<open>
  C4. Whenever the current streak is a streak of WIN, the longest streak of WIN is at
  least as long as the current streak. The longest streak is the length of the longest
  run of consecutive WIN anywhere in the log: no run of WIN in the log is longer, and
  some run of WIN in the log has that length.
\<close>

theorem streakMax_ge_streakAtual:
  "(streakTipo (calcularKPIs h clk s) = Some ''WIN'' \<longrightarrow>
      streakAtual (calcularKPIs h clk s) \<le> streakMax (calcularKPIs h clk s))
   \<and> (operacoes s = as @ bs @ cs \<and> list_all (\<lambda>p. result p = ''WIN'') bs \<longrightarrow>
      length bs \<le> streakMax (calcularKPIs h clk s))
   \<and> (\<exists>xs ys zs. operacoes s = xs @ ys @ zs \<and> list_all (\<lambda>p. result p = ''WIN'') ys
        \<and> length ys = streakMax (calcularKPIs h clk s))"
proof -
  let ?ops = "operacoes s"
  let ?W = "\<lambda>p. result p = ''WIN''"
  have a: "streakAtual (calcularKPIs h clk s) \<le> streakMax (calcularKPIs h clk s)"
    if t: "streakTipo (calcularKPIs h clk s) = Some ''WIN''"
  proof -
    from t have ne: "?ops \<noteq> []" by (auto simp: calc_streak)
    from t have lw: "result (last ?ops) = ''WIN''"
      using streakLoop_all [OF ne] by (auto simp: calc_streak split: if_splits)
    then have sa: "streakAtual (calcularKPIs h clk s) = length (takeWhile ?W (rev ?ops))"
      using streakLoop_all [OF ne] by (simp add: calc_streak)
    have "length (takeWhile ?W (rev ?ops)) \<le> snd (streakMaxLoop ?ops (0, 0))"
      by (simp add: streakMaxLoop_tail)
    also have "\<dots> \<le> fst (streakMaxLoop ?ops (0, 0))"
      by (rule streakMaxLoop_le) simp
    finally show ?thesis using sa by (simp add: calc_streak)
  qed
  have b: "length bs \<le> streakMax (calcularKPIs h clk s)"
    if "operacoes s = as @ bs @ cs" "list_all ?W bs"
    using that streakMaxLoop_bounds_run [of bs as cs] by (simp add: calc_streak)
  have c: "\<exists>xs ys zs. operacoes s = xs @ ys @ zs \<and> list_all ?W ys
        \<and> length ys = streakMax (calcularKPIs h clk s)"
    using streakMaxLoop_attained [of ?ops] by (simp add: calc_streak)
  show ?thesis using a b c by blast
qed

text \<open>
  The theorem of C4 on two wins, a loss and a win: the current streak is one WIN, and
  the two wins at the start are a run of length 2.
\<close>

theorem streakMax_ge_streakAtual_witness:
  "streakTipo (calcularKPIs host0 relogio0 estadoSequencia) = Some ''WIN''
   \<and> streakAtual (calcularKPIs host0 relogio0 estadoSequencia)
       \<le> streakMax (calcularKPIs host0 relogio0 estadoSequencia)
   \<and> operacoes estadoSequencia = [] @ [opWin, opWin] @ [opLoss, opWin]
   \<and> list_all (\<lambda>p. result p = ''WIN'') [opWin, opWin]
   \<and> 2 \<le> streakMax (calcularKPIs host0 relogio0 estadoSequencia)"
proof -
  have t: "streakTipo (calcularKPIs host0 relogio0 estadoSequencia) = Some ''WIN''"
    by (simp add: calc_streak(2) streakLoop_char ex_seq op_simps)
  have o: "operacoes estadoSequencia = [] @ [opWin, opWin] @ [opLoss, opWin]"
    by (simp add: ex_seq)
  have w: "list_all (\<lambda>p. result p = ''WIN'') [opWin, opWin]"
    by (simp add: op_simps)
  note th = streakMax_ge_streakAtual [of host0 relogio0 estadoSequencia "[]" "[opWin, opWin]"
      "[opLoss, opWin]"]
  from th t have a: "streakAtual (calcularKPIs host0 relogio0 estadoSequencia)
       \<le> streakMax (calcularKPIs host0 relogio0 estadoSequencia)" by blast
  from th o w have "length [opWin, opWin] \<le> streakMax (calcularKPIs host0 relogio0 estadoSequencia)"
    by blast
  then have b: "2 \<le> streakMax (calcularKPIs host0 relogio0 estadoSequencia)" by simp
  show ?thesis using t a o w b by blast
qed

text \<open>
  C5. The current streak is the number of consecutive operations at the end of the log,
  counted backward from the last one, whose result is that of the last operation, and
  the streak type is that result; on an empty log the streak is 0 and the type is none.
  (The script also gives 0 and none when the result of the last operation is the empty
  string, which no reachable state holds.) For the initial balance 5000 and two losses
  of 50, the balance is 4900, the longest streak of WIN 0, the current streak 2 and its
  type LOSS.
\<close>

theorem streakAtual_sequencia_final:
  "streakAtual (calcularKPIs h clk s) =
     (if operacoes s = [] \<or> result (last (operacoes s)) = [] then 0
      else length (takeWhile (\<lambda>p. result p = result (last (operacoes s))) (rev (operacoes s))))
   \<and> streakTipo (calcularKPIs h clk s) =
     (if operacoes s = [] \<or> result (last (operacoes s)) = [] then None
      else Some (result (last (operacoes s))))
   \<and> bancaAtual (calcularKPIs h clk estadoLoss) = Num 4900
   \<and> streakMax (calcularKPIs h clk estadoLoss) = 0
   \<and> streakAtual (calcularKPIs h clk estadoLoss) = 2
   \<and> streakTipo (calcularKPIs h clk estadoLoss) = Some ''LOSS''"
proof -
  have ops: "operacoes estadoLoss = [opLoss, opLoss]" "bancaInicial estadoLoss = Num 5000"
    by (simp_all add: estadoLoss_def)
  have b: "bancaAtual (calcularKPIs h clk estadoLoss) = Num 4900"
    by (simp add: calc_streak ops somaProfit_def profit_def op_simps)
  have m: "streakMax (calcularKPIs h clk estadoLoss) = 0"
    by (simp add: calc_streak ops op_simps)
  have a: "streakAtual (calcularKPIs h clk estadoLoss) = 2"
    "streakTipo (calcularKPIs h clk estadoLoss) = Some ''LOSS''"
    by (simp_all add: calc_streak(1,2) streakLoop_char ops op_simps)
  show ?thesis using b m a by (simp add: calc_streak(1,2) streakLoop_char)
qed

text \<open>The theorem of C5 on two wins, a loss and a win: a streak of one WIN.\<close>

theorem streakAtual_sequencia_final_witness:
  "streakAtual (calcularKPIs host0 relogio0 estadoSequencia) = 1
   \<and> streakTipo (calcularKPIs host0 relogio0 estadoSequencia) = Some ''WIN''"
  using streakAtual_sequencia_final [of host0 relogio0 estadoSequencia]
  by (simp add: ex_seq op_simps)

subsection \<open>The clock\<close>

text \<open>
  C2, as amended. \<open>calcularKPIs\<close> takes no time parameter: it reads the wall clock itself,
  once for the start of the month and once more for each operation dated on or after
  it. It assigns nothing to the state. Its result is determined by the state and those
  readings, at most one more than there are operations: two calls on the same state
  that see the same readings return the same KPIs, and when every reading is the same
  instant \<open>now\<close> the result is that of \<open>computeKPIs(state, now)\<close>.
\<close>

theorem calcularKPIs_leituras_do_relogio:
  "((\<forall>j. j \<le> length (operacoes s) \<longrightarrow> c1 j = c2 j) \<longrightarrow>
      calcularKPIs h c1 s = calcularKPIs h c2 s)
   \<and> calcularKPIs h (\<lambda>k. now) s = computeKPIs h now s"
proof -
  have "calcularKPIs h c1 s = calcularKPIs h c2 s"
    if "\<forall>j. j \<le> length (operacoes s) \<longrightarrow> c1 j = c2 j"
  proof (rule calcularKPIs_cong)
    show "startMonthOf h c1 = startMonthOf h c2" by (rule opsMesOf_cong(1) [of s]) (use that in simp)
    show "opsMesOf h c1 s = opsMesOf h c2 s" by (rule opsMesOf_cong(2)) (use that in simp)
  qed
  then show ?thesis using calcularKPIs_const [of h now s] by blast
qed

text \<open>
  The theorem of C2 on a state of one operation and two clocks that agree on their
  first two readings and differ afterwards.
\<close>

theorem calcularKPIs_leituras_do_relogio_witness:
  "length (operacoes estadoFuturo) = 1
   \<and> relogio0 0 = relogio2 0 \<and> relogio0 1 = relogio2 1 \<and> relogio0 2 \<noteq> relogio2 2
   \<and> calcularKPIs host0 relogio0 estadoFuturo = calcularKPIs host0 relogio2 estadoFuturo"
proof -
  have l: "length (operacoes estadoFuturo) = 1" by (simp add: ex_simps)
  have r: "relogio0 0 = relogio2 0" "relogio0 1 = relogio2 1" "relogio0 2 \<noteq> relogio2 2"
    by (simp_all add: relogio0_def relogio2_def)
  have "\<forall>j. j \<le> length (operacoes estadoFuturo) \<longrightarrow> relogio0 j = relogio2 j"
    by (simp add: l relogio0_def relogio2_def)
  then have "calcularKPIs host0 relogio0 estadoFuturo = calcularKPIs host0 relogio2 estadoFuturo"
    using calcularKPIs_leituras_do_relogio [of estadoFuturo relogio0 relogio2 host0] by blast
  then show ?thesis using l r by blast
qed

text \<open>
  C2 as stated fails: the result is not a function of the state and the time of the
  call. On a state holding a win dated one millisecond after the call, a clock that
  stands still and a clock that advances by a millisecond during the call start from the
  same reading and give different KPIs (no win of the month, and one).
\<close>

theorem calcularKPIs_relogio_counterexample:
  "relogio0 0 = relogio1 0
   \<and> winsMes (calcularKPIs host0 relogio0 estadoFuturo) = 0
   \<and> winsMes (calcularKPIs host0 relogio1 estadoFuturo) = 1
   \<and> calcularKPIs host0 relogio0 estadoFuturo \<noteq> calcularKPIs host0 relogio1 estadoFuturo"
proof -
  have r: "relogio0 0 = relogio1 0" by (simp add: relogio0_def relogio1_def)
  have a: "winsMes (calcularKPIs host0 relogio0 estadoFuturo) = 0"
    by (simp add: calc_fields opsMes_futuro0)
  have b: "winsMes (calcularKPIs host0 relogio1 estadoFuturo) = 1"
    by (simp add: calc_fields opsMes_futuro1 op_simps)
  have "calcularKPIs host0 relogio0 estadoFuturo \<noteq> calcularKPIs host0 relogio1 estadoFuturo"
  proof
    assume "calcularKPIs host0 relogio0 estadoFuturo = calcularKPIs host0 relogio1 estadoFuturo"
    then have "winsMes (calcularKPIs host0 relogio0 estadoFuturo) =
               winsMes (calcularKPIs host0 relogio1 estadoFuturo)" by simp
    then show False using a b by simp
  qed
  then show ?thesis using r a b by blast
qed

subsection \<open>The KPIs of the month\<close>

text \<open>
  C3. The hit rate lies between 0 and 100. The wins and losses of the month are the
  operations of the month with result WIN and LOSS; when the month has no operation,
  and whenever wins plus losses is 0, the hit rate is 0; otherwise it is wins divided by
  wins plus losses, times 100. In a state the script reaches, wins plus losses is the
  number of operations of the month, so the hit rate is that quotient whenever the month
  has an operation.
\<close>

theorem taxaAcerto_intervalo:
  "jle (Num 0) (taxaAcerto (calcularKPIs h clk s))
   \<and> jle (taxaAcerto (calcularKPIs h clk s)) (Num 100)
   \<and> winsMes (calcularKPIs h clk s) = length (filter (\<lambda>p. result p = ''WIN'') (opsMesOf h clk s))
   \<and> lossesMes (calcularKPIs h clk s) = length (filter (\<lambda>p. result p = ''LOSS'') (opsMesOf h clk s))
   \<and> (opsMesOf h clk s = [] \<longrightarrow> taxaAcerto (calcularKPIs h clk s) = Num 0)
   \<and> (winsMes (calcularKPIs h clk s) + lossesMes (calcularKPIs h clk s) = 0 \<longrightarrow>
        taxaAcerto (calcularKPIs h clk s) = Num 0)
   \<and> (0 < winsMes (calcularKPIs h clk s) + lossesMes (calcularKPIs h clk s) \<longrightarrow>
        taxaAcerto (calcularKPIs h clk s) =
          Num (of_nat (winsMes (calcularKPIs h clk s))
               / of_nat (winsMes (calcularKPIs h clk s) + lossesMes (calcularKPIs h clk s))
               * 100))
   \<and> (opsMesOf h clk (corre evs) \<noteq> [] \<longrightarrow>
        taxaAcerto (calcularKPIs h clk (corre evs)) =
          Num (of_nat (winsMes (calcularKPIs h clk (corre evs)))
               / of_nat (length (opsMesOf h clk (corre evs))) * 100))"
proof -
  let ?w = "length (filter (\<lambda>p. result p = ''WIN'') (opsMesOf h clk s))"
  let ?l = "length (filter (\<lambda>p. result p = ''LOSS'') (opsMesOf h clk s))"
  have t: "taxaAcerto (calcularKPIs h clk s) = taxaDe ?w ?l" by (simp add: calc_fields)
  have w: "winsMes (calcularKPIs h clk s) = ?w" "lossesMes (calcularKPIs h clk s) = ?l"
    by (simp_all add: calc_fields)
  have e: "opsMesOf h clk s = [] \<longrightarrow> taxaDe ?w ?l = Num 0" by (simp add: taxaDe_def)
  have z: "?w + ?l = 0 \<longrightarrow> taxaDe ?w ?l = Num 0" using taxaDe_zero [of ?w ?l] by blast
  have f: "0 < ?w + ?l \<longrightarrow> taxaDe ?w ?l = Num (of_nat ?w / of_nat (?w + ?l) * 100)"
    using taxaDe_formula [of ?w ?l] by blast
  have g: "opsMesOf h clk (corre evs) \<noteq> [] \<longrightarrow>
        taxaAcerto (calcularKPIs h clk (corre evs)) =
          Num (of_nat (winsMes (calcularKPIs h clk (corre evs)))
               / of_nat (length (opsMesOf h clk (corre evs))) * 100)"
  proof
    let ?m = "opsMesOf h clk (corre evs)"
    let ?wm = "length (filter (\<lambda>p. result p = ''WIN'') ?m)"
    let ?lm = "length (filter (\<lambda>p. result p = ''LOSS'') ?m)"
    assume ne: "?m \<noteq> []"
    have "list_all winLoss ?m" by (simp add: opsMesOf_def filtraMes_winLoss corre_winLoss)
    then have len: "?wm + ?lm = length ?m" by (rule wins_losses_length)
    then have "0 < ?wm + ?lm" using ne by simp
    then have "taxaDe ?wm ?lm = Num (of_nat ?wm / of_nat (?wm + ?lm) * 100)"
      by (rule taxaDe_formula)
    then show "taxaAcerto (calcularKPIs h clk (corre evs)) =
          Num (of_nat (winsMes (calcularKPIs h clk (corre evs)))
               / of_nat (length (opsMesOf h clk (corre evs))) * 100)"
      by (simp only: calc_fields len)
  qed
  have main: "jle (Num 0) (taxaDe ?w ?l) \<and> jle (taxaDe ?w ?l) (Num 100)
      \<and> (opsMesOf h clk s = [] \<longrightarrow> taxaDe ?w ?l = Num 0)
      \<and> (?w + ?l = 0 \<longrightarrow> taxaDe ?w ?l = Num 0)
      \<and> (0 < ?w + ?l \<longrightarrow> taxaDe ?w ?l = Num (of_nat ?w / of_nat (?w + ?l) * 100))"
    using taxaDe_range [of ?w ?l] e z f by blast
  show ?thesis using main g unfolding t w by blast
qed

text \<open>
  The theorem of C3 on a month with one loss and one win (hit rate 50), on a month with
  no operation (hit rate 0), and on the state a run reaches (hit rate 50).
\<close>

theorem taxaAcerto_intervalo_witness:
  "0 < winsMes (calcularKPIs host0 relogio0 estadoMisto)
         + lossesMes (calcularKPIs host0 relogio0 estadoMisto)
   \<and> taxaAcerto (calcularKPIs host0 relogio0 estadoMisto) = Num 50
   \<and> opsMesOf host0 relogio0 estadoFuturo = []
   \<and> taxaAcerto (calcularKPIs host0 relogio0 estadoFuturo) = Num 0
   \<and> opsMesOf host0 relogio0 (corre runExemplo) \<noteq> []
   \<and> taxaAcerto (calcularKPIs host0 relogio0 (corre runExemplo)) = Num 50"
proof -
  have w: "winsMes (calcularKPIs host0 relogio0 estadoMisto) = 1"
    "lossesMes (calcularKPIs host0 relogio0 estadoMisto) = 1"
    by (simp_all add: calc_fields opsMes_misto op_simps)
  then have p: "0 < winsMes (calcularKPIs host0 relogio0 estadoMisto)
         + lossesMes (calcularKPIs host0 relogio0 estadoMisto)" by simp
  have ne: "opsMesOf host0 relogio0 (corre runExemplo) \<noteq> []"
    using opsMes_exemplo by auto
  note t1 = taxaAcerto_intervalo [of host0 relogio0 estadoMisto runExemplo]
  note t2 = taxaAcerto_intervalo [of host0 relogio0 estadoFuturo runExemplo]
  from t1 p
  have "taxaAcerto (calcularKPIs host0 relogio0 estadoMisto) =
          Num (of_nat (winsMes (calcularKPIs host0 relogio0 estadoMisto))
               / of_nat (winsMes (calcularKPIs host0 relogio0 estadoMisto)
                         + lossesMes (calcularKPIs host0 relogio0 estadoMisto))
               * 100)" by blast
  then have a: "taxaAcerto (calcularKPIs host0 relogio0 estadoMisto) = Num 50"
    by (simp add: w)
  from t2 opsMes_futuro0
  have b: "taxaAcerto (calcularKPIs host0 relogio0 estadoFuturo) = Num 0" by blast
  from t1 ne
  have "taxaAcerto (calcularKPIs host0 relogio0 (corre runExemplo)) =
          Num (of_nat (winsMes (calcularKPIs host0 relogio0 (corre runExemplo)))
               / of_nat (length (opsMesOf host0 relogio0 (corre runExemplo))) * 100)"
    by blast
  then have c: "taxaAcerto (calcularKPIs host0 relogio0 (corre runExemplo)) = Num 50"
    by (simp add: wins_exemplo opsMes_exemplo)
  show ?thesis using p a opsMes_futuro0 b ne c by blast
qed



subsection \<open>Loading the stored state\<close>

text \<open>
  C7, as amended. No exception leaves the loader, and it shows nothing. When the stored
  snapshot is absent (no entry, or the empty string), does not parse, or is the text
  \<open>null\<close>, the loader leaves the state as it was, so the default state at start-up; and
  so it does when \<open>Number(bancaInicial)\<close> throws, as for a stored object with an own
  property \<open>toString\<close>. Otherwise a snapshot that parses but is not of the expected shape
  is not replaced by the default: the initial balance becomes \<open>Number(bancaInicial) || 0\<close>,
  which is 0 when the field is missing, and the operations become the empty list when
  \<open>operacoes\<close> is not an array. In \<open>sozinho.js\<close>, a stored text that does not convert to a
  finite number gives the default balance 100.
\<close>

theorem carregarLocal_fallback:
  "fst (chamaCarregarLocal h clk raw s) = None
   \<and> carregarLocal h clk None s = s
   \<and> carregarLocal h clk (Some []) s = s
   \<and> (JSON_parse h r = None \<longrightarrow> carregarLocal h clk (Some r) s = s)
   \<and> (JSON_parse h r = Some JNull \<longrightarrow> carregarLocal h clk (Some r) s = s)
   \<and> (JSON_parse h r = Some v \<and> v \<noteq> JNull \<and> v \<noteq> JUndefined
        \<and> Number_of h (campo v ''bancaInicial'') = Inl e \<longrightarrow>
        carregarLocal h clk (Some r) s = s)
   \<and> (JSON_parse h r = Some v \<and> r \<noteq> [] \<and> v \<noteq> JNull \<and> v \<noteq> JUndefined
        \<and> Number_of h (campo v ''bancaInicial'') = Inr n \<longrightarrow>
        bancaInicial (carregarLocal h clk (Some r) s) = (if falsy_num n then Num 0 else n))
   \<and> (JSON_parse h r = Some v \<and> r \<noteq> [] \<and> v \<noteq> JNull \<and> v \<noteq> JUndefined
        \<and> campo v ''bancaInicial'' = JUndefined \<longrightarrow>
        bancaInicial (carregarLocal h clk (Some r) s) = Num 0)
   \<and> (JSON_parse h r = Some v \<and> r \<noteq> [] \<and> v \<noteq> JNull \<and> v \<noteq> JUndefined
        \<and> Number_of h (campo v ''bancaInicial'') = Inr n
        \<and> \<not> isArray (campo v ''operacoes'') \<longrightarrow>
        operacoes (carregarLocal h clk (Some r) s) = [])
   \<and> (\<not> isFinite (StringToNumber h r) \<longrightarrow> bancaInicialSozinho h (Some r) = Num 100)"
proof -
  have z: "fst (chamaCarregarLocal h clk raw s) = None"
    by (rule chamaCarregarLocal_nao_lanca)
  have a: "JSON_parse h r = None \<longrightarrow> carregarLocal h clk (Some r) s = s"
    using carregar_syntax [of h r clk s] by blast
  have nu: "JSON_parse h r = Some JNull \<longrightarrow> carregarLocal h clk (Some r) s = s"
    using carregar_null [of h r clk s] by blast
  have l: "JSON_parse h r = Some v \<and> v \<noteq> JNull \<and> v \<noteq> JUndefined
        \<and> Number_of h (campo v ''bancaInicial'') = Inl e \<longrightarrow>
        carregarLocal h clk (Some r) s = s"
    using carregar_lanca [of h r v e clk s] by blast
  have b: "JSON_parse h r = Some v \<and> r \<noteq> [] \<and> v \<noteq> JNull \<and> v \<noteq> JUndefined
        \<and> Number_of h (campo v ''bancaInicial'') = Inr n \<longrightarrow>
        bancaInicial (carregarLocal h clk (Some r) s) = (if falsy_num n then Num 0 else n)"
    using carregar_banca [of h r v n clk s] by blast
  have c: "JSON_parse h r = Some v \<and> r \<noteq> [] \<and> v \<noteq> JNull \<and> v \<noteq> JUndefined
        \<and> campo v ''bancaInicial'' = JUndefined \<longrightarrow>
        bancaInicial (carregarLocal h clk (Some r) s) = Num 0"
    using carregar_banca [of h r v NaN clk s] by simp
  have d: "JSON_parse h r = Some v \<and> r \<noteq> [] \<and> v \<noteq> JNull \<and> v \<noteq> JUndefined
        \<and> Number_of h (campo v ''bancaInicial'') = Inr n
        \<and> \<not> isArray (campo v ''operacoes'') \<longrightarrow>
        operacoes (carregarLocal h clk (Some r) s) = []"
    using carregar_naoArray [of h r v n clk s] by blast
  have e: "\<not> isFinite (StringToNumber h r) \<longrightarrow> bancaInicialSozinho h (Some r) = Num 100"
    by (simp add: bancaInicialSozinho_def)
  show ?thesis using z carregar_ausente [of h clk s] a nu l b c d e by blast
qed

text \<open>
  The theorem of C7 on a text that does not parse and on a balance that is an object
  with an own property \<open>toString\<close> (the state stays the default one), on the empty object
  (balance 0, no operations) and, for \<open>sozinho.js\<close>, on a text that is not a number.
\<close>

theorem carregarLocal_fallback_witness:
  "fst (chamaCarregarLocal host0 relogio0 (Some textoToString) state0) = None
   \<and> JSON_parse host0 ''x'' = None
   \<and> carregarLocal host0 relogio0 (Some ''x'') state0 = state0
   \<and> JSON_parse host0 textoToString = Some valorToString
   \<and> Number_of host0 (campo valorToString ''bancaInicial'') = Inl TypeError
   \<and> carregarLocal host0 relogio0 (Some textoToString) state0 = state0
   \<and> JSON_parse host0 ''{}'' = Some (JObject [])
   \<and> campo (JObject []) ''bancaInicial'' = JUndefined
   \<and> \<not> isArray (campo (JObject []) ''operacoes'')
   \<and> bancaInicial (carregarLocal host0 relogio0 (Some ''{}'') state0) = Num 0
   \<and> operacoes (carregarLocal host0 relogio0 (Some ''{}'') state0) = []
   \<and> \<not> isFinite (StringToNumber host0 ''abc'')
   \<and> bancaInicialSozinho host0 (Some ''abc'') = Num 100"
proof -
  have p1: "JSON_parse host0 ''x'' = None" by (simp add: host0_simps parse0_simps)
  have p2: "JSON_parse host0 ''{}'' = Some (JObject [])" by (simp add: host0_simps parse0_simps)
  have p3: "JSON_parse host0 textoToString = Some valorToString"
    by (simp add: host0_simps parse0_simps)
  have th: "Number_of host0 (campo valorToString ''bancaInicial'') = Inl TypeError"
    by (simp add: campo_def valorToString_def)
  have v3: "valorToString \<noteq> JNull" "valorToString \<noteq> JUndefined"
    by (simp_all add: valorToString_def)
  have na: "\<not> isArray (campo (JObject []) ''operacoes'')" by (simp add: campo_def)
  have und: "campo (JObject []) ''bancaInicial'' = JUndefined" by (simp add: campo_def)
  have nu: "Number_of host0 (campo (JObject []) ''bancaInicial'') = Inr NaN"
    by (simp add: und)
  have nan: "\<not> isFinite (StringToNumber host0 ''abc'')"
    by (simp add: host0_simps numero0_def digito_def)
  note t1 = carregarLocal_fallback [of host0 relogio0 "Some textoToString" state0 "''x''"
      JNull TypeError NaN]
  note t2 = carregarLocal_fallback [of host0 relogio0 "Some textoToString" state0 "''{}''"
      "JObject []" TypeError NaN]
  note t3 = carregarLocal_fallback [of host0 relogio0 "Some textoToString" state0 textoToString
      valorToString TypeError NaN]
  note t4 = carregarLocal_fallback [of host0 relogio0 "Some textoToString" state0 "''abc''"
      JNull TypeError NaN]
  from t1 have z: "fst (chamaCarregarLocal host0 relogio0 (Some textoToString) state0) = None"
    by blast
  from t1 p1 have a: "carregarLocal host0 relogio0 (Some ''x'') state0 = state0" by blast
  from t3 p3 th v3 have l: "carregarLocal host0 relogio0 (Some textoToString) state0 = state0"
    by blast
  have ne: "''{}'' \<noteq> []" "JObject [] \<noteq> JNull" "JObject [] \<noteq> JUndefined" by simp_all
  from t2 p2 ne und
  have b: "bancaInicial (carregarLocal host0 relogio0 (Some ''{}'') state0) = Num 0" by blast
  from t2 p2 ne nu na
  have c: "operacoes (carregarLocal host0 relogio0 (Some ''{}'') state0) = []" by blast
  from t4 nan have d: "bancaInicialSozinho host0 (Some ''abc'') = Num 100" by blast
  show ?thesis using z p1 a p3 th l p2 und na b c nan d by blast
qed

text \<open>
  C7 as stated fails: the stored text \<open>{}\<close> parses and is not of the expected shape, and
  the loader does not fall back to the default state; the initial balance becomes 0
  where the default is 5000.
\<close>

theorem carregarLocal_forma_counterexample:
  "JSON_parse host0 ''{}'' = Some (JObject [])
   \<and> state0 = \<lparr>bancaInicial = Num 5000, operacoes = []\<rparr>
   \<and> carregarLocal host0 relogio0 (Some ''{}'') state0 = \<lparr>bancaInicial = Num 0, operacoes = []\<rparr>
   \<and> carregarLocal host0 relogio0 (Some ''{}'') state0 \<noteq> state0"
proof -
  have p: "JSON_parse host0 ''{}'' = Some (JObject [])" by (simp add: host0_simps parse0_simps)
  have d: "state0 = \<lparr>bancaInicial = Num 5000, operacoes = []\<rparr>" by (simp add: state0_def)
  have n: "\<lparr>bancaInicial = Num 0, operacoes = []\<rparr> \<noteq> state0" by (simp add: state0_def)
  show ?thesis using p d n by (simp only: carregar_vazio) simp
qed

text \<open>
  C10, as amended. When the stored snapshot parses to a value other than \<open>null\<close>, and
  its field \<open>bancaInicial\<close> is missing, or converts by \<open>Number\<close> to \<open>NaN\<close> (as a
  non-numeric value does) or to 0, the loader sets the initial balance to 0, not to the
  former default 5000; and it sets the operations to the empty list whenever the stored
  field \<open>operacoes\<close> is not an array: from the state at start-up, where the loader is
  called, in every case, and from any state when \<open>Number(bancaInicial)\<close> returns.
\<close>

theorem carregarLocal_normaliza:
  "JSON_parse h r = Some v \<Longrightarrow> r \<noteq> [] \<Longrightarrow> v \<noteq> JNull \<Longrightarrow> v \<noteq> JUndefined \<Longrightarrow>
   (campo v ''bancaInicial'' = JUndefined \<longrightarrow>
      bancaInicial (carregarLocal h clk (Some r) s) = Num 0)
   \<and> (Number_of h (campo v ''bancaInicial'') = Inr NaN \<longrightarrow>
      bancaInicial (carregarLocal h clk (Some r) s) = Num 0)
   \<and> (Number_of h (campo v ''bancaInicial'') = Inr (Num 0) \<longrightarrow>
      bancaInicial (carregarLocal h clk (Some r) s) = Num 0)
   \<and> (\<not> isArray (campo v ''operacoes'') \<longrightarrow>
      operacoes (carregarLocal h clk (Some r) state0) = [])
   \<and> (\<not> isArray (campo v ''operacoes'') \<and> Number_of h (campo v ''bancaInicial'') = Inr n \<longrightarrow>
      operacoes (carregarLocal h clk (Some r) s) = [])"
proof -
  assume p: "JSON_parse h r = Some v" "r \<noteq> []" "v \<noteq> JNull" "v \<noteq> JUndefined"
  have u: "campo v ''bancaInicial'' = JUndefined \<longrightarrow>
      bancaInicial (carregarLocal h clk (Some r) s) = Num 0"
    using carregar_banca [OF p, of NaN clk s] by simp
  have na: "Number_of h (campo v ''bancaInicial'') = Inr NaN \<longrightarrow>
      bancaInicial (carregarLocal h clk (Some r) s) = Num 0"
    using carregar_banca [OF p, of NaN clk s] by simp
  have ze: "Number_of h (campo v ''bancaInicial'') = Inr (Num 0) \<longrightarrow>
      bancaInicial (carregarLocal h clk (Some r) s) = Num 0"
    using carregar_banca [OF p, of "Num 0" clk s] by simp
  have o0: "\<not> isArray (campo v ''operacoes'') \<longrightarrow>
      operacoes (carregarLocal h clk (Some r) state0) = []"
    using carregar_naoArray_inicial [OF p, of clk] by blast
  have o: "\<not> isArray (campo v ''operacoes'') \<and> Number_of h (campo v ''bancaInicial'') = Inr n \<longrightarrow>
      operacoes (carregarLocal h clk (Some r) s) = []"
    using carregar_naoArray [OF p, of n clk s] by blast
  show ?thesis using u na ze o0 o by blast
qed

text \<open>
  The theorem of C10 on the stored text \<open>{}\<close>, an object with neither field: the balance
  becomes 0 and the operations the empty list.
\<close>

theorem carregarLocal_normaliza_witness:
  "JSON_parse host0 ''{}'' = Some (JObject [])
   \<and> campo (JObject []) ''bancaInicial'' = JUndefined
   \<and> \<not> isArray (campo (JObject []) ''operacoes'')
   \<and> bancaInicial (carregarLocal host0 relogio0 (Some ''{}'') state0) = Num 0
   \<and> operacoes (carregarLocal host0 relogio0 (Some ''{}'') state0) = []"
proof -
  have p: "JSON_parse host0 ''{}'' = Some (JObject [])" by (simp add: host0_simps parse0_simps)
  have u: "campo (JObject []) ''bancaInicial'' = JUndefined" by (simp add: campo_def)
  have na: "\<not> isArray (campo (JObject []) ''operacoes'')" by (simp add: campo_def)
  have "''{}'' \<noteq> []" "JObject [] \<noteq> JNull" "JObject [] \<noteq> JUndefined" by simp_all
  from carregarLocal_normaliza [OF p this, of relogio0 state0 NaN] u na
  show ?thesis using p by blast
qed

text \<open>
  C10 as stated fails: the stored text \<open>null\<close> parses, it has no field \<open>bancaInicial\<close>,
  and the loader leaves the initial balance at 5000 (reading a property of \<open>null\<close> throws
  inside the \<open>try\<close>, and the \<open>catch\<close> ignores it).
\<close>

theorem carregarLocal_null_counterexample:
  "JSON_parse host0 ''null'' = Some JNull
   \<and> getProp JNull ''bancaInicial'' = Inl TypeError
   \<and> bancaInicial state0 = Num 5000
   \<and> bancaInicial (carregarLocal host0 relogio0 (Some ''null'') state0) = Num 5000
   \<and> bancaInicial (carregarLocal host0 relogio0 (Some ''null'') state0) \<noteq> Num 0"
proof -
  have p: "JSON_parse host0 ''null'' = Some JNull" by (simp add: host0_simps parse0_simps)
  have "carregarLocal host0 relogio0 (Some ''null'') state0 = state0"
    using p by (rule carregar_null)
  then show ?thesis using p by (simp add: state0_def)
qed

subsection \<open>Rejected submissions\<close>

text \<open>
  C8, as amended. A submission fails validation when the amount is not a positive
  number, when (in \<open>sozinho.js\<close>, which requires it) the payout percentage is not a
  number from 0 to 100, or when the result is neither WIN nor LOSS. For every such input
  both submit handlers leave their state as it was (the log and the initial balance of
  the main script, the balance and the stored balance of \<open>sozinho.js\<close>): no operation is
  built or appended. When the page has the message element, they write into it the
  message of the first test that failed; when the page has none, they reject the input
  without a message.
\<close>

theorem submit_rejeita_invalido:
  "(amountInvalid a \<longleftrightarrow> \<not> jgt a (Num 0))
   \<and> (payoutInvalid q \<longleftrightarrow> \<not> (\<exists>x. q = Num x \<and> 0 \<le> x \<and> x \<le> 100))
   \<and> (resultInvalid res \<longleftrightarrow> res \<noteq> ''WIN'' \<and> res \<noteq> ''LOSS'')
   \<and> (amountInvalid (StringToNumber h (inAmount f)) \<or> resultInvalid (inResult f) \<longrightarrow>
        snd (submitMain h uid now f (el, s)) = s
        \<and> fst (submitMain h uid now f (Text t, s)) =
            Text (Some (if amountInvalid (StringToNumber h (inAmount f))
                        then ValorInvalido else ResultadoInvalido))
        \<and> fst (submitMain h uid now f (NoElement, s)) = NoElement)
   \<and> (amountInvalid (StringToNumber h (inAmount f))
        \<or> payoutInvalid (StringToNumber h (inPayout f))
        \<or> resultInvalid (inResult f) \<longrightarrow>
        snd (submitSozinho h f (el, w)) = w
        \<and> fst (submitSozinho h f (Text t, w)) =
            Text (Some (if amountInvalid (StringToNumber h (inAmount f))
                        then ValorInvalidoMaiorZero
                        else if payoutInvalid (StringToNumber h (inPayout f))
                        then PayoutInvalido else ResultadoInvalido))
        \<and> fst (submitSozinho h f (NoElement, w)) = NoElement)"
proof -
  have r: "resultInvalid res \<longleftrightarrow> res \<noteq> ''WIN'' \<and> res \<noteq> ''LOSS''"
    by (simp add: resultInvalid_def)
  have m: "amountInvalid (StringToNumber h (inAmount f)) \<or> resultInvalid (inResult f) \<longrightarrow>
        snd (submitMain h uid now f (el, s)) = s
        \<and> fst (submitMain h uid now f (Text t, s)) =
            Text (Some (if amountInvalid (StringToNumber h (inAmount f))
                        then ValorInvalido else ResultadoInvalido))
        \<and> fst (submitMain h uid now f (NoElement, s)) = NoElement"
    using submitMain_rejeita [of h f uid now el s]
      submitMain_rejeita [of h f uid now "Text t" s]
      submitMain_rejeita [of h f uid now NoElement s]
    by simp
  have z: "amountInvalid (StringToNumber h (inAmount f))
        \<or> payoutInvalid (StringToNumber h (inPayout f))
        \<or> resultInvalid (inResult f) \<longrightarrow>
        snd (submitSozinho h f (el, w)) = w
        \<and> fst (submitSozinho h f (Text t, w)) =
            Text (Some (if amountInvalid (StringToNumber h (inAmount f))
                        then ValorInvalidoMaiorZero
                        else if payoutInvalid (StringToNumber h (inPayout f))
                        then PayoutInvalido else ResultadoInvalido))
        \<and> fst (submitSozinho h f (NoElement, w)) = NoElement"
    using submitSozinho_rejeita [of h f el w]
      submitSozinho_rejeita [of h f "Text t" w]
      submitSozinho_rejeita [of h f NoElement w]
    by simp
  show ?thesis using amountInvalid_iff [of a] payoutInvalid_iff [of q] r m z by blast
qed

text \<open>
  The theorem of C8 on the empty form, whose amount converts to 0: both handlers keep
  their state and write the message about the amount.
\<close>

theorem submit_rejeita_invalido_witness:
  "amountInvalid (StringToNumber host0 (inAmount formVazio))
   \<and> snd (submitMain host0 ''u1'' agora formVazio (Text None, estadoMisto)) = estadoMisto
   \<and> fst (submitMain host0 ''u1'' agora formVazio (Text None, estadoMisto))
       = Text (Some ValorInvalido)
   \<and> snd (submitSozinho host0 formVazio (Text None, \<lparr>banca = Num 5000, guardado = None\<rparr>))
       = \<lparr>banca = Num 5000, guardado = None\<rparr>
   \<and> fst (submitSozinho host0 formVazio (Text None, \<lparr>banca = Num 5000, guardado = None\<rparr>))
       = Text (Some ValorInvalidoMaiorZero)"
proof -
  have i: "amountInvalid (StringToNumber host0 (inAmount formVazio))"
    by (simp add: formVazio_def host0_simps numero0_100 amountInvalid_def)
  note t = submit_rejeita_invalido [of NaN NaN "[]" host0 formVazio "''u1''" agora
      "Text None" estadoMisto None "\<lparr>banca = Num 5000, guardado = None\<rparr>"]
  from t i have a: "snd (submitMain host0 ''u1'' agora formVazio (Text None, estadoMisto)) = estadoMisto
        \<and> fst (submitMain host0 ''u1'' agora formVazio (Text None, estadoMisto)) =
            Text (Some (if amountInvalid (StringToNumber host0 (inAmount formVazio))
                        then ValorInvalido else ResultadoInvalido))"
    by blast
  from t i have b: "snd (submitSozinho host0 formVazio (Text None, \<lparr>banca = Num 5000, guardado = None\<rparr>))
       = \<lparr>banca = Num 5000, guardado = None\<rparr>
     \<and> fst (submitSozinho host0 formVazio (Text None, \<lparr>banca = Num 5000, guardado = None\<rparr>)) =
            Text (Some (if amountInvalid (StringToNumber host0 (inAmount formVazio))
                        then ValorInvalidoMaiorZero
                        else if payoutInvalid (StringToNumber host0 (inPayout formVazio))
                        then PayoutInvalido else ResultadoInvalido))"
    by blast
  show ?thesis using i a b by simp
qed

text \<open>
  C8 as stated fails: on a page without the message element, the empty form, whose
  amount converts to 0, fails validation and both handlers return with the page and the
  state as they were; no message is written anywhere.
\<close>

theorem submit_sem_mensagem_counterexample:
  "amountInvalid (StringToNumber host0 (inAmount formVazio))
   \<and> submitMain host0 ''u1'' agora formVazio (NoElement, estadoMisto) = (NoElement, estadoMisto)
   \<and> submitSozinho host0 formVazio (NoElement, \<lparr>banca = Num 5000, guardado = None\<rparr>)
       = (NoElement, \<lparr>banca = Num 5000, guardado = None\<rparr>)"
  by (simp add: formVazio_def host0_simps numero0_100 amountInvalid_def submitMain_def
      submitSozinho_def)

subsection \<open>The results stored in the state\<close>

text \<open>
  C9. Every operation of every state the script reaches has the result \<open>'WIN'\<close> or
  \<open>'LOSS'\<close>: appending an operation and loading a stored one both store \<open>'WIN'\<close> when the
  given result is the string \<open>'WIN'\<close> and \<open>'LOSS'\<close> for any other value. So in every such
  state the wins and the losses of the month add up to the number of operations of the
  month.
\<close>

theorem corre_result_normalizado:
  "list_all winLoss (operacoes (corre evs))
   \<and> winsMes (calcularKPIs h clk (corre evs)) + lossesMes (calcularKPIs h clk (corre evs))
       = length (opsMesOf h clk (corre evs))
   \<and> result (last (operacoes (adicionarOperacao h uid now (JNumber a) res strategy description s)))
       = (if res = JString ''WIN'' then ''WIN'' else ''LOSS'')
   \<and> (novaOperacao h uid now amt res strategy description = Inr q \<longrightarrow>
        result q = (if res = JString ''WIN'' then ''WIN'' else ''LOSS''))
   \<and> (carregaOp h clk k v = Inr (p, k') \<longrightarrow>
        result p = (if campo v ''result'' = JString ''WIN'' then ''WIN'' else ''LOSS''))"
proof -
  have a: "list_all winLoss (operacoes (corre evs))" by (rule corre_winLoss)
  then have "list_all winLoss (opsMesOf h clk (corre evs))"
    by (simp add: opsMesOf_def filtraMes_winLoss)
  then have b: "winsMes (calcularKPIs h clk (corre evs)) + lossesMes (calcularKPIs h clk (corre evs))
       = length (opsMesOf h clk (corre evs))"
    by (simp add: calc_fields wins_losses_length)
  have c: "result (last (operacoes (adicionarOperacao h uid now (JNumber a) res strategy description s)))
       = (if res = JString ''WIN'' then ''WIN'' else ''LOSS'')"
    using adicionarOperacao_result [of h "JNumber a" a uid now res strategy description s]
    by (simp add: normResult_def)
  have n: "novaOperacao h uid now amt res strategy description = Inr q \<longrightarrow>
        result q = (if res = JString ''WIN'' then ''WIN'' else ''LOSS'')"
    using novaOperacao_result [of h uid now amt res strategy description q]
    by (simp add: normResult_def)
  have d: "carregaOp h clk k v = Inr (p, k') \<longrightarrow>
        result p = (if campo v ''result'' = JString ''WIN'' then ''WIN'' else ''LOSS'')"
    using carregaOp_result [of h clk k v p k'] by (simp add: normResult_def)
  show ?thesis using a b c n d by blast
qed

text \<open>
  The theorem of C9 on the run that loads a snapshot whose one operation has the result
  \<open>'win'\<close> and then appends a WIN: the stored results are LOSS and WIN, and the stored
  operation is read back as a LOSS.
\<close>

theorem corre_result_normalizado_witness:
  "list_all winLoss (operacoes (corre runExemplo))
   \<and> map result (operacoes (corre runExemplo)) = [''LOSS'', ''WIN'']
   \<and> carregaOp host0 relogio0 0
        (JObject [(''amount'', JNumber (Num 10)), (''result'', JString ''win'')])
      = Inr (\<lparr>createdAt = DateMs agora, amount = Num 10, result = ''LOSS'', rest = []\<rparr>, Suc 0)
   \<and> result \<lparr>createdAt = DateMs agora, amount = Num 10, result = ''LOSS'', rest = []\<rparr> = ''LOSS''"
proof -
  let ?v = "JObject [(''amount'', JNumber (Num 10)), (''result'', JString ''win'')]"
  let ?p = "\<lparr>createdAt = DateMs agora, amount = Num 10, result = ''LOSS'', rest = []\<rparr>"
  have op: "carregaOp host0 relogio0 0 ?v = Inr (?p, Suc 0)"
    by (simp add: carregaOp_def normResult_def relogio0_def)
  note t = corre_result_normalizado [of runExemplo host0 relogio0 "''u''" 0 NaN JNull JNull
      JNull state0 JNull ?p 0 ?v ?p "Suc 0"]
  from t have a: "list_all winLoss (operacoes (corre runExemplo))" by blast
  from t op have b: "result ?p = (if campo ?v ''result'' = JString ''WIN'' then ''WIN'' else ''LOSS'')"
    by blast
  then have c: "result ?p = ''LOSS''" by (simp add: campo_def)
  show ?thesis using a corre_exemplo op c by blast
qed

end
